theory Spec2Isabelle
  imports Main
begin

section \<open>Semantic analysis of DML statements (yb/sql/ptree/pt_dml.cc)\<close>

text \<open>
  A shallow embedding of \<^verbatim>\<open>PTDmlStmt\<close> and \<^verbatim>\<open>WhereExprState\<close>. Member functions take
  the object they mutate and return it updated, together with the \<^verbatim>\<open>Status\<close> they return
  in C++. A mutation made before an error return is kept in the returned object, as it is
  in the C++ object. Source locations of error messages are left out, and so are the value
  types of columns: no branch of the code modelled here reads them.
\<close>

subsection \<open>Status values and abnormal termination\<close>

datatype ErrorCode =
    SYSTEM_NAMESPACE_READONLY
  | TABLE_NOT_FOUND
  | DUPLICATE_COLUMN
  | CQL_STATEMENT_INVALID
  | FEATURE_NOT_YET_IMPLEMENTED
  | INVALID_ARGUMENTS

text \<open>
  \<^verbatim>\<open>sem_context->Error(loc, msg, code)\<close> is \<open>Error msg code\<close>; the overload without a
  message, \<^verbatim>\<open>sem_context->Error(loc, code)\<close>, is \<open>ErrorCodeOnly code\<close>.
\<close>

datatype Status = OK | Error string ErrorCode | ErrorCodeOnly ErrorCode

text \<open>
  What is not a \<^verbatim>\<open>Status\<close>: \<^verbatim>\<open>vector::at\<close> out of range throws \<^verbatim>\<open>std::out_of_range\<close>;
  \<^verbatim>\<open>operator[]\<close> out of range and a call through a null \<^verbatim>\<open>column_args_\<close> are undefined in
  C++. The model stops with \<open>Inl\<close> of the cause in all three cases.
\<close>

datatype Abort = OutOfRange | NullPointer

text \<open>The error kinds of the specification, as the statuses the code builds for them.\<close>

abbreviation MissingPartitionKey :: Status where
  "MissingPartitionKey \<equiv> Error ''Missing partition key'' CQL_STATEMENT_INVALID"

abbreviation MissingKeyCondition :: Status where
  "MissingKeyCondition \<equiv>
     Error ''Missing condition on key columns in WHERE clause'' CQL_STATEMENT_INVALID"

abbreviation IllogicalCondition :: Status where
  "IllogicalCondition \<equiv> Error ''Illogical condition for where clause'' CQL_STATEMENT_INVALID"

abbreviation NonKeyColumnInWhere :: Status where
  "NonKeyColumnInWhere \<equiv>
     Error ''Non primary key cannot be used in where clause'' CQL_STATEMENT_INVALID"

abbreviation PartitionColumnInRangeExpr :: Status where
  "PartitionColumnInRangeExpr \<equiv>
     Error ''Partition column cannot be used in this expression'' CQL_STATEMENT_INVALID"

abbreviation RangeNotYetSupported :: Status where
  "RangeNotYetSupported \<equiv>
     Error ''Range expression is not yet supported'' FEATURE_NOT_YET_IMPLEMENTED"

abbreviation IllegalRangeCondition :: Status where
  "IllegalRangeCondition \<equiv> Error ''Illogical range condition'' CQL_STATEMENT_INVALID"

abbreviation UnsupportedOperator :: Status where
  "UnsupportedOperator \<equiv>
     Error ''Operator is not supported in where clause'' CQL_STATEMENT_INVALID"

subsection \<open>Columns, operators, column operations\<close>

text \<open>
  \<^verbatim>\<open>ColumnDesc\<close>, as \<^verbatim>\<open>LookupTable\<close> initialises it: position in the table, column id, and
  the three role flags.
\<close>

record ColumnDesc =
  index :: nat
  column_id :: nat
  is_hash :: bool
  is_primary :: bool
  is_static :: bool

datatype YQLOperator =
    YQL_OP_NOOP
  | YQL_OP_NOT
  | YQL_OP_AND
  | YQL_OP_OR
  | YQL_OP_EQUAL
  | YQL_OP_LESS_THAN
  | YQL_OP_LESS_THAN_EQUAL
  | YQL_OP_GREATER_THAN
  | YQL_OP_GREATER_THAN_EQUAL
  | YQL_OP_NOT_EQUAL
  | YQL_OP_LIKE
  | YQL_OP_IN
  | YQL_OP_BETWEEN

text \<open>The value side of a comparison: a constant or a bind variable.\<close>

datatype PTValue = PTConstInt int | PTConstText string | PTBindVar string

text \<open>
  \<^verbatim>\<open>ColumnOp\<close> and \<^verbatim>\<open>ColumnArg\<close> are declared in pt_dml.h: a column descriptor, a value
  expression and (for \<^verbatim>\<open>ColumnOp\<close>) the operator. A default-constructed one has no
  descriptor and \<^verbatim>\<open>IsInitialized()\<close> is false for it; a vector element is therefore an
  \<open>option\<close>, \<open>None\<close> until \<^verbatim>\<open>Init\<close> is called on it.
\<close>

record ColumnOp =
  op_desc :: ColumnDesc
  op_expr :: PTValue
  yql_op :: YQLOperator

record ColumnArg =
  arg_desc :: ColumnDesc
  arg_expr :: PTValue

definition IsInitialized :: "'a option \<Rightarrow> bool" where
  "IsInitialized x = (x \<noteq> None)"

text \<open>
  Modelled from the spec: \<^verbatim>\<open>ColumnOpCounter\<close> is declared in pt_dml.h, which is not among
  the sources. Per column it counts the EQ, the LT/LTE and the GT/GTE comparisons seen so
  far, starting from zero.
\<close>

record ColumnOpCounter =
  gt_count :: nat
  lt_count :: nat
  eq_count :: nat

definition new_counter :: ColumnOpCounter where
  "new_counter = \<lparr>gt_count = 0, lt_count = 0, eq_count = 0\<rparr>"

definition increase_gt :: "ColumnOpCounter \<Rightarrow> ColumnOpCounter" where
  "increase_gt c = c\<lparr>gt_count := gt_count c + 1\<rparr>"

definition increase_lt :: "ColumnOpCounter \<Rightarrow> ColumnOpCounter" where
  "increase_lt c = c\<lparr>lt_count := lt_count c + 1\<rparr>"

definition increase_eq :: "ColumnOpCounter \<Rightarrow> ColumnOpCounter" where
  "increase_eq c = c\<lparr>eq_count := eq_count c + 1\<rparr>"

subsection \<open>WhereExprState::AnalyzeColumnOp\<close>

text \<open>
  \<^verbatim>\<open>ops_\<close>, \<^verbatim>\<open>key_ops_\<close> and \<^verbatim>\<open>op_counters_\<close> point to the statement's \<^verbatim>\<open>where_ops_\<close>, its
  \<^verbatim>\<open>key_where_ops_\<close> and the counters local to \<^verbatim>\<open>AnalyzeWhereExpr\<close>; the caller copies
  the first two back into the statement.
\<close>

record WhereExprState =
  ops :: "ColumnOp list"
  key_ops :: "ColumnOp option list"
  op_counters :: "ColumnOpCounter list"
  state_write_only :: bool

text \<open>\<^verbatim>\<open>(*key_ops_)[col_desc->index()].Init(col_desc, value, YQL_OP_EQUAL)\<close>\<close>

definition init_key_op ::
  "WhereExprState \<Rightarrow> ColumnDesc \<Rightarrow> PTValue \<Rightarrow> Abort + Status \<times> WhereExprState" where
  "init_key_op st col_desc v =
     (if index col_desc < length (key_ops st) then
        Inr (OK, st\<lparr>key_ops := (key_ops st)
               [index col_desc := Some \<lparr>op_desc = col_desc, op_expr = v, yql_op = YQL_OP_EQUAL\<rparr>]\<rparr>)
      else Inl OutOfRange)"

text \<open>\<^verbatim>\<open>ColumnOp col_op(col_desc, value, op); ops_->push_back(col_op)\<close>\<close>

definition push_back_op ::
  "WhereExprState \<Rightarrow> ColumnDesc \<Rightarrow> PTValue \<Rightarrow> YQLOperator \<Rightarrow> WhereExprState" where
  "push_back_op st col_desc v opr =
     st\<lparr>ops := ops st @ [\<lparr>op_desc = col_desc, op_expr = v, yql_op = opr\<rparr>]\<rparr>"

definition set_counter :: "WhereExprState \<Rightarrow> nat \<Rightarrow> ColumnOpCounter \<Rightarrow> WhereExprState" where
  "set_counter st i c = st\<lparr>op_counters := (op_counters st)[i := c]\<rparr>"

definition AnalyzeColumnOp ::
  "WhereExprState \<Rightarrow> YQLOperator \<Rightarrow> ColumnDesc \<Rightarrow> PTValue \<Rightarrow> Abort + Status \<times> WhereExprState"
  where
  "AnalyzeColumnOp st opr col_desc v =
     (if \<not> index col_desc < length (op_counters st) then Inl OutOfRange
      else
        let counter = op_counters st ! index col_desc in
        if opr = YQL_OP_EQUAL then
          (if eq_count counter > 0 \<or> gt_count counter > 0 \<or> lt_count counter > 0 then
             Inr (IllogicalCondition, st)
           else
             let st1 = set_counter st (index col_desc) (increase_eq counter) in
             if is_hash col_desc then init_key_op st1 col_desc v
             else if is_primary col_desc then
               (if state_write_only st1 then init_key_op st1 col_desc v
                else Inr (OK, push_back_op st1 col_desc v YQL_OP_EQUAL))
             else Inr (NonKeyColumnInWhere, st1))
        else if opr = YQL_OP_LESS_THAN \<or> opr = YQL_OP_LESS_THAN_EQUAL then
          (if is_hash col_desc then Inr (PartitionColumnInRangeExpr, st)
           else if is_primary col_desc then
             (if state_write_only st then Inr (RangeNotYetSupported, st)
              else if eq_count counter > 0 \<or> lt_count counter > 0 then
                Inr (IllegalRangeCondition, st)
              else
                Inr (OK, push_back_op
                           (set_counter st (index col_desc) (increase_lt counter))
                           col_desc v opr))
           else Inr (NonKeyColumnInWhere, st))
        else if opr = YQL_OP_GREATER_THAN_EQUAL \<or> opr = YQL_OP_GREATER_THAN then
          (if is_hash col_desc then Inr (PartitionColumnInRangeExpr, st)
           else if is_primary col_desc then
             (if state_write_only st then Inr (RangeNotYetSupported, st)
              else if eq_count counter > 0 \<or> gt_count counter > 0 then
                Inr (IllegalRangeCondition, st)
              else
                Inr (OK, push_back_op
                           (set_counter st (index col_desc) (increase_gt counter))
                           col_desc v opr))
           else Inr (NonKeyColumnInWhere, st))
        else Inr (UnsupportedOperator, st))"

subsection \<open>The walk of the WHERE expression\<close>

text \<open>
  Modelled from the spec: \<^verbatim>\<open>PTExpr::Analyze\<close> lives in pt_expr.cc, which is not among
  the sources. The WHERE clause is a conjunction of comparisons; the walk is depth-first
  and left to right, hands every comparison \<open>(column, operator, value)\<close> to
  \<^verbatim>\<open>AnalyzeColumnOp\<close>, stops at the first error, and fails on anything that is neither a
  comparison nor an AND. The spec names no error kind for that failure; it is the bare
  \<^verbatim>\<open>CQL_STATEMENT_INVALID\<close> code here.
\<close>

datatype PTExpr =
    PTRelationExpr YQLOperator ColumnDesc PTValue
  | PTLogicExpr YQLOperator PTExpr PTExpr
  | PTOtherExpr

fun PTExpr_Analyze :: "PTExpr \<Rightarrow> WhereExprState \<Rightarrow> Abort + Status \<times> WhereExprState" where
  "PTExpr_Analyze (PTRelationExpr opr col_desc v) st = AnalyzeColumnOp st opr col_desc v"
| "PTExpr_Analyze (PTLogicExpr opr l r) st =
     (if opr = YQL_OP_AND then
        (case PTExpr_Analyze l st of
           Inl a \<Rightarrow> Inl a
         | Inr (s, st1) \<Rightarrow> if s = OK then PTExpr_Analyze r st1 else Inr (s, st1))
      else Inr (ErrorCodeOnly CQL_STATEMENT_INVALID, st))"
| "PTExpr_Analyze PTOtherExpr st = Inr (ErrorCodeOnly CQL_STATEMENT_INVALID, st)"

subsection \<open>The statement\<close>

record YBTableName =
  namespace_name :: "string option"
  tbl_name :: string

record YBColumnSchema =
  col_name :: string
  col_id :: nat
  col_is_static :: bool

record YBSchema =
  columns :: "YBColumnSchema list"
  schema_num_key_columns :: nat
  schema_num_hash_key_columns :: nat

text \<open>
  The members of \<^verbatim>\<open>PTDmlStmt\<close> (without the trailing underscore). \<^verbatim>\<open>table_columns_\<close>
  holds \<open>None\<close> where an element is still default-constructed; \<^verbatim>\<open>ttl_seconds_\<close> is the
  value \<^verbatim>\<open>Eval()\<close> returns, \<open>None\<close> for the null pointer; \<^verbatim>\<open>column_args_\<close> is \<open>None\<close> for
  the null pointer.
\<close>

record PTDmlStmt =
  table_name :: YBTableName
  is_system :: bool
  table :: "YBSchema option"
  table_columns :: "ColumnDesc option list"
  num_key_columns :: nat
  num_hash_key_columns :: nat
  key_where_ops :: "ColumnOp option list"
  where_ops :: "ColumnOp list"
  write_only :: bool
  ttl_seconds :: "int option"
  column_args :: "ColumnArg option list option"

text \<open>\<^verbatim>\<open>num_columns()\<close> is declared in pt_dml.h: the size of \<^verbatim>\<open>table_columns_\<close>.\<close>

definition num_columns :: "PTDmlStmt \<Rightarrow> nat" where
  "num_columns stmt = length (table_columns stmt)"

text \<open>\<^verbatim>\<open>vector::resize\<close>: cut, or filled up with default-constructed elements.\<close>

definition resize :: "nat \<Rightarrow> 'a option list \<Rightarrow> 'a option list" where
  "resize n xs = take n xs @ replicate (n - length xs) None"

text \<open>\<^verbatim>\<open>PTDmlStmt::Analyze\<close>: a fresh, empty vector of column arguments.\<close>

definition Analyze :: "PTDmlStmt \<Rightarrow> Status \<times> PTDmlStmt" where
  "Analyze stmt = (OK, stmt\<lparr>column_args := Some []\<rparr>)"

subsection \<open>PTDmlStmt::StaticColumnArgsOnly\<close>

text \<open>The first loop: is an argument of a range column initialised?\<close>

function write_range_columns_loop :: "ColumnArg option list \<Rightarrow> nat \<Rightarrow> nat \<Rightarrow> Abort + bool" where
  "write_range_columns_loop args idx n =
     (if idx < n then
        (if idx < length args then
           (if IsInitialized (args ! idx) then Inr True
            else write_range_columns_loop args (idx + 1) n)
         else Inl OutOfRange)
      else Inr False)"
  by pat_completeness auto
termination
  by (relation "measure (\<lambda>(args, idx, n). n - idx)") auto

declare write_range_columns_loop.simps [simp del]

text \<open>
  The second loop, over the columns after the key: the pair
  \<open>(write_static_columns, write_non_static_columns)\<close>.
\<close>

function static_columns_loop ::
  "ColumnArg option list \<Rightarrow> nat \<Rightarrow> bool \<Rightarrow> bool \<Rightarrow> bool \<times> bool" where
  "static_columns_loop args idx write_static write_non_static =
     (if idx < length args then
        (case args ! idx of
           None \<Rightarrow> static_columns_loop args (idx + 1) write_static write_non_static
         | Some a \<Rightarrow>
             let write_static' = (if is_static (arg_desc a) then True else write_static);
                 write_non_static' = (if is_static (arg_desc a) then write_non_static else True)
             in if write_static' \<and> write_non_static' then (write_static', write_non_static')
                else static_columns_loop args (idx + 1) write_static' write_non_static')
      else (write_static, write_non_static))"
  by pat_completeness auto
termination
  by (relation "measure (\<lambda>(args, idx, ws, wn). length args - idx)") auto

declare static_columns_loop.simps [simp del]

definition StaticColumnArgsOnly :: "PTDmlStmt \<Rightarrow> Abort + bool" where
  "StaticColumnArgsOnly stmt =
     (case column_args stmt of
        None \<Rightarrow> Inl NullPointer
      | Some args \<Rightarrow>
          if args = [] then Inr False
          else
            (case write_range_columns_loop args (num_hash_key_columns stmt)
                    (num_key_columns stmt) of
               Inl a \<Rightarrow> Inl a
             | Inr write_range_columns \<Rightarrow>
                 (case static_columns_loop args (num_key_columns stmt) False False of
                    (write_static_columns, write_non_static_columns) \<Rightarrow>
                      Inr (write_static_columns \<and> \<not> write_range_columns
                           \<and> \<not> write_non_static_columns))))"

subsection \<open>PTDmlStmt::AnalyzeWhereExpr and PTDmlStmt::AnalyzeWhereClause\<close>

text \<open>
  The state handed to the walk: pointers to the statement's two collections, and fresh
  counters, one per column of the table.
\<close>

definition where_state :: "PTDmlStmt \<Rightarrow> WhereExprState" where
  "where_state stmt =
     \<lparr>ops = where_ops stmt, key_ops = key_where_ops stmt,
      op_counters = replicate (num_columns stmt) new_counter,
      state_write_only = write_only stmt\<rparr>"

text \<open>What the walk wrote through the pointers is in the statement.\<close>

definition written_back :: "PTDmlStmt \<Rightarrow> WhereExprState \<Rightarrow> PTDmlStmt" where
  "written_back stmt st = stmt\<lparr>where_ops := ops st, key_where_ops := key_ops st\<rparr>"

text \<open>
  Write path, first loop: \<open>Inr True\<close> when every hash column has an EQ, \<open>Inr False\<close> at the
  first one that has none.
\<close>

function hash_entries_loop :: "ColumnOpCounter list \<Rightarrow> nat \<Rightarrow> nat \<Rightarrow> Abort + bool" where
  "hash_entries_loop cs idx n =
     (if idx < n then
        (if idx < length cs then
           (if eq_count (cs ! idx) = 0 then Inr False
            else hash_entries_loop cs (idx + 1) n)
         else Inl OutOfRange)
      else Inr True)"
  by pat_completeness auto
termination
  by (relation "measure (\<lambda>(cs, idx, n). n - idx)") auto

declare hash_entries_loop.simps [simp del]

text \<open>Write path, second loop: the number of range key columns that have an EQ.\<close>

function range_keys_loop :: "ColumnOpCounter list \<Rightarrow> nat \<Rightarrow> nat \<Rightarrow> nat \<Rightarrow> Abort + nat" where
  "range_keys_loop cs idx n range_keys =
     (if idx < n then
        (if idx < length cs then
           range_keys_loop cs (idx + 1) n
             (if eq_count (cs ! idx) \<noteq> 0 then range_keys + 1 else range_keys)
         else Inl OutOfRange)
      else Inr range_keys)"
  by pat_completeness auto
termination
  by (relation "measure (\<lambda>(cs, idx, n, k). n - idx)") auto

declare range_keys_loop.simps [simp del]

text \<open>
  The checks on a write, after the walk. The subtraction
  \<^verbatim>\<open>num_key_columns_ - num_hash_key_columns_\<close> is one of C++ \<^verbatim>\<open>int\<close>s and is written over
  \<open>int\<close> here.
\<close>

definition write_checks :: "PTDmlStmt \<Rightarrow> ColumnOpCounter list \<Rightarrow> Abort + Status \<times> PTDmlStmt" where
  "write_checks stmt cs =
     (case hash_entries_loop cs 0 (num_hash_key_columns stmt) of
        Inl a \<Rightarrow> Inl a
      | Inr False \<Rightarrow> Inr (MissingKeyCondition, stmt)
      | Inr True \<Rightarrow>
          (case range_keys_loop cs (num_hash_key_columns stmt) (num_key_columns stmt) 0 of
             Inl a \<Rightarrow> Inl a
           | Inr range_keys \<Rightarrow>
               (case StaticColumnArgsOnly stmt of
                  Inl a \<Rightarrow> Inl a
                | Inr True \<Rightarrow>
                    if int range_keys \<noteq>
                         int (num_key_columns stmt) - int (num_hash_key_columns stmt)
                       \<and> range_keys \<noteq> 0
                    then Inr (MissingKeyCondition, stmt)
                    else if range_keys = 0 then
                      Inr (OK, stmt\<lparr>key_where_ops :=
                                 resize (num_hash_key_columns stmt) (key_where_ops stmt)\<rparr>)
                    else Inr (OK, stmt)
                | Inr False \<Rightarrow>
                    if int range_keys \<noteq>
                         int (num_key_columns stmt) - int (num_hash_key_columns stmt)
                    then Inr (MissingKeyCondition, stmt)
                    else Inr (OK, stmt))))"

text \<open>Read path, first loop: is a hash slot not initialised?\<close>

function incomplete_hash_loop :: "ColumnOp option list \<Rightarrow> nat \<Rightarrow> nat \<Rightarrow> Abort + bool" where
  "incomplete_hash_loop kops idx n =
     (if idx < n then
        (if idx < length kops then
           (if \<not> IsInitialized (kops ! idx) then Inr True
            else incomplete_hash_loop kops (idx + 1) n)
         else Inl OutOfRange)
      else Inr False)"
  by pat_completeness auto
termination
  by (relation "measure (\<lambda>(kops, idx, n). n - idx)") auto

declare incomplete_hash_loop.simps [simp del]

text \<open>
  Read path, second loop, \<^verbatim>\<open>for (idx = num_hash_key_columns_ - 1; idx >= 0; idx--)\<close>: the
  second argument is \<open>idx + 1\<close>, so the loop starts at \<open>num_hash_key_columns_\<close> and ends
  at \<open>0\<close>.
\<close>

fun push_front_loop ::
  "ColumnOp option list \<Rightarrow> nat \<Rightarrow> ColumnOp list \<Rightarrow> Abort + ColumnOp list" where
  "push_front_loop kops 0 wops = Inr wops"
| "push_front_loop kops (Suc idx) wops =
     (if idx < length kops then
        (case kops ! idx of
           Some col_op \<Rightarrow> push_front_loop kops idx (col_op # wops)
         | None \<Rightarrow> push_front_loop kops idx wops)
      else Inl OutOfRange)"

definition read_checks :: "PTDmlStmt \<Rightarrow> Abort + Status \<times> PTDmlStmt" where
  "read_checks stmt =
     (case incomplete_hash_loop (key_where_ops stmt) 0 (num_hash_key_columns stmt) of
        Inl a \<Rightarrow> Inl a
      | Inr True \<Rightarrow>
          (case push_front_loop (key_where_ops stmt) (num_hash_key_columns stmt)
                  (where_ops stmt) of
             Inl a \<Rightarrow> Inl a
           | Inr wops \<Rightarrow> Inr (OK, stmt\<lparr>where_ops := wops, key_where_ops := []\<rparr>))
      | Inr False \<Rightarrow> Inr (OK, stmt))"

definition AnalyzeWhereExpr :: "PTDmlStmt \<Rightarrow> PTExpr \<Rightarrow> Abort + Status \<times> PTDmlStmt" where
  "AnalyzeWhereExpr stmt expr =
     (case PTExpr_Analyze expr (where_state stmt) of
        Inl a \<Rightarrow> Inl a
      | Inr (s, st) \<Rightarrow>
          if s \<noteq> OK then Inr (s, written_back stmt st)
          else if write_only stmt then write_checks (written_back stmt st) (op_counters st)
          else read_checks (written_back stmt st))"

definition AnalyzeWhereClause ::
  "PTDmlStmt \<Rightarrow> PTExpr option \<Rightarrow> Abort + Status \<times> PTDmlStmt" where
  "AnalyzeWhereClause stmt where_clause =
     (case where_clause of
        None \<Rightarrow> if write_only stmt then Inr (MissingPartitionKey, stmt) else Inr (OK, stmt)
      | Some expr \<Rightarrow>
          AnalyzeWhereExpr
            (stmt\<lparr>key_where_ops :=
                    resize (if write_only stmt then num_key_columns stmt
                            else num_hash_key_columns stmt) (key_where_ops stmt)\<rparr>)
            expr)"

subsection \<open>PTDmlStmt::AnalyzeUsingClause\<close>

text \<open>
  Modelled from the spec: \<^verbatim>\<open>IsValidTTLSeconds\<close>, \<^verbatim>\<open>kMinTtlSeconds\<close> and \<^verbatim>\<open>kMaxTtlSeconds\<close>
  are declared in yb/common/table_properties_constants.h, which is not among the sources.
  A TTL is valid when it lies in \<open>[kMinTtlSeconds, kMaxTtlSeconds]\<close>; the two bounds are
  parameters here.
\<close>

definition IsValidTTLSeconds :: "int \<Rightarrow> int \<Rightarrow> int \<Rightarrow> bool" where
  "IsValidTTLSeconds kMinTtlSeconds kMaxTtlSeconds ttl =
     (kMinTtlSeconds \<le> ttl \<and> ttl \<le> kMaxTtlSeconds)"

text \<open>
  Modelled from the spec: \<^verbatim>\<open>strings::Substitute\<close> (yb/gutil, not among the sources) puts
  the two bounds into the message, in decimal.
\<close>

definition digit :: "nat \<Rightarrow> char" where
  "digit d = ''0123456789'' ! d"

fun decimal :: "nat \<Rightarrow> string" where
  "decimal n = (if n < 10 then [digit n] else decimal (n div 10) @ [digit (n mod 10)])"

declare decimal.simps [simp del]

definition decimal_int :: "int \<Rightarrow> string" where
  "decimal_int i = (if i < 0 then CHR ''-'' # decimal (nat (- i)) else decimal (nat i))"

definition ttl_range_message :: "int \<Rightarrow> int \<Rightarrow> string" where
  "ttl_range_message kMinTtlSeconds kMaxTtlSeconds =
     ''Valid ttl range : ['' @ decimal_int kMinTtlSeconds @ '', ''
       @ decimal_int kMaxTtlSeconds @ '']''"

abbreviation InvalidTtl :: "int \<Rightarrow> int \<Rightarrow> Status" where
  "InvalidTtl kMinTtlSeconds kMaxTtlSeconds \<equiv>
     Error (ttl_range_message kMinTtlSeconds kMaxTtlSeconds) INVALID_ARGUMENTS"

definition AnalyzeUsingClause :: "int \<Rightarrow> int \<Rightarrow> PTDmlStmt \<Rightarrow> Status" where
  "AnalyzeUsingClause kMinTtlSeconds kMaxTtlSeconds stmt =
     (case ttl_seconds stmt of
        None \<Rightarrow> OK
      | Some ttl \<Rightarrow>
          if \<not> IsValidTTLSeconds kMinTtlSeconds kMaxTtlSeconds ttl then
            InvalidTtl kMinTtlSeconds kMaxTtlSeconds
          else OK)"

subsection \<open>PTDmlStmt::LookupTable\<close>

text \<open>
  What \<^verbatim>\<open>LookupTable\<close> reads from outside the statement: the current keyspace, the catalog
  behind \<^verbatim>\<open>GetTableDesc\<close>, the symbol table, the flag
  \<^verbatim>\<open>FLAGS_yb_system_namespace_readonly\<close>, and the name of the reserved system keyspace.
\<close>

record SemContext =
  CurrentKeyspace :: string
  catalog :: "(YBTableName \<times> YBSchema) list"
  symbol_table :: "(string \<times> ColumnDesc) list"
  yb_system_namespace_readonly :: bool
  system_namespace_name :: string

definition GetTableDesc :: "SemContext \<Rightarrow> YBTableName \<Rightarrow> YBSchema option" where
  "GetTableDesc sem_context name = map_of (catalog sem_context) name"

text \<open>
  Modelled from the spec: \<^verbatim>\<open>YBTableName::is_system\<close> is declared in yb/client, which is
  not among the sources. A name is a system name when its keyspace is the reserved system
  keyspace.
\<close>

definition name_is_system :: "SemContext \<Rightarrow> YBTableName \<Rightarrow> bool" where
  "name_is_system sem_context name =
     (namespace_name name = Some (system_namespace_name sem_context))"

text \<open>
  Modelled from the spec: \<^verbatim>\<open>SemContext::MapSymbol\<close> is defined in sem_context.cc, which is
  not among the sources. It enters the column under its name; a name that is already in
  the symbol table fails with \<^verbatim>\<open>DuplicateColumn\<close>.
\<close>

definition MapSymbol :: "SemContext \<Rightarrow> string \<Rightarrow> ColumnDesc \<Rightarrow> Status \<times> SemContext" where
  "MapSymbol sem_context name col_desc =
     (if map_of (symbol_table sem_context) name \<noteq> None then
        (ErrorCodeOnly DUPLICATE_COLUMN, sem_context)
      else (OK, sem_context\<lparr>symbol_table := (name, col_desc) # symbol_table sem_context\<rparr>))"

text \<open>The loop over the columns of the schema.\<close>

function columns_loop ::
  "YBSchema \<Rightarrow> nat \<Rightarrow> PTDmlStmt \<Rightarrow> SemContext \<Rightarrow> Status \<times> PTDmlStmt \<times> SemContext" where
  "columns_loop schema idx stmt sem_context =
     (if idx < length (columns schema) then
        let col = columns schema ! idx;
            col_desc = \<lparr>index = idx, column_id = col_id col,
                        is_hash = idx < num_hash_key_columns stmt,
                        is_primary = idx < num_key_columns stmt,
                        is_static = col_is_static col\<rparr>;
            stmt1 = stmt\<lparr>table_columns := (table_columns stmt)[idx := Some col_desc]\<rparr>
        in (case MapSymbol sem_context (col_name col) col_desc of
              (OK, sem_context1) \<Rightarrow> columns_loop schema (idx + 1) stmt1 sem_context1
            | (s, sem_context1) \<Rightarrow> (s, stmt1, sem_context1))
      else (OK, stmt, sem_context))"
  by pat_completeness auto
termination
  by (relation "measure (\<lambda>(schema, idx, stmt, c). length (columns schema) - idx)") auto

declare columns_loop.simps [simp del]

definition LookupTable :: "PTDmlStmt \<Rightarrow> SemContext \<Rightarrow> Status \<times> PTDmlStmt \<times> SemContext" where
  "LookupTable stmt sem_context =
     (let name0 = table_name stmt;
          name = (if namespace_name name0 = None
                  then name0\<lparr>namespace_name := Some (CurrentKeyspace sem_context)\<rparr>
                  else name0);
          stmt1 = stmt\<lparr>is_system := name_is_system sem_context name\<rparr>
      in if is_system stmt1 \<and> write_only stmt1 \<and> yb_system_namespace_readonly sem_context then
           (ErrorCodeOnly SYSTEM_NAMESPACE_READONLY, stmt1, sem_context)
         else
           let stmt2 = stmt1\<lparr>table := GetTableDesc sem_context name\<rparr>
           in (case table stmt2 of
                 None \<Rightarrow> (ErrorCodeOnly TABLE_NOT_FOUND, stmt2, sem_context)
               | Some schema \<Rightarrow>
                   columns_loop schema 0
                     (stmt2\<lparr>num_key_columns := schema_num_key_columns schema,
                            num_hash_key_columns := schema_num_hash_key_columns schema,
                            table_columns :=
                              resize (length (columns schema)) (table_columns stmt2)\<rparr>)
                     sem_context))"

subsection \<open>An example table\<close>

text \<open>
  The table of the specification's examples, \<open>T(h int hash, c int primary, s int static,
  r int)\<close>, and a statement on it as \<^verbatim>\<open>LookupTable\<close> and the \<^verbatim>\<open>resize\<close> of
  \<^verbatim>\<open>AnalyzeWhereClause\<close> leave it: a write when \<open>w\<close> holds, a read otherwise, with the
  column arguments \<open>args\<close>.
\<close>

definition col_h :: ColumnDesc where
  "col_h = \<lparr>index = 0, column_id = 10, is_hash = True, is_primary = True, is_static = False\<rparr>"

definition col_c :: ColumnDesc where
  "col_c = \<lparr>index = 1, column_id = 11, is_hash = False, is_primary = True, is_static = False\<rparr>"

definition col_s :: ColumnDesc where
  "col_s = \<lparr>index = 2, column_id = 12, is_hash = False, is_primary = False, is_static = True\<rparr>"

definition col_r :: ColumnDesc where
  "col_r = \<lparr>index = 3, column_id = 13, is_hash = False, is_primary = False, is_static = False\<rparr>"

definition schema_T :: YBSchema where
  "schema_T =
     \<lparr>columns =
        [\<lparr>col_name = ''h'', col_id = 10, col_is_static = False\<rparr>,
         \<lparr>col_name = ''c'', col_id = 11, col_is_static = False\<rparr>,
         \<lparr>col_name = ''s'', col_id = 12, col_is_static = True\<rparr>,
         \<lparr>col_name = ''r'', col_id = 13, col_is_static = False\<rparr>],
      schema_num_key_columns = 2, schema_num_hash_key_columns = 1\<rparr>"

definition stmt_T :: "bool \<Rightarrow> ColumnArg option list \<Rightarrow> PTDmlStmt" where
  "stmt_T w args =
     \<lparr>table_name = \<lparr>namespace_name = Some ''ks'', tbl_name = ''T''\<rparr>,
      is_system = False, table = Some schema_T,
      table_columns = [Some col_h, Some col_c, Some col_s, Some col_r],
      num_key_columns = 2, num_hash_key_columns = 1,
      key_where_ops = (if w then [None, None] else [None]),
      where_ops = [], write_only = w, ttl_seconds = None, column_args = Some args\<rparr>"

text \<open>The state of the walk at its start, for a read and for a write on \<open>T\<close>.\<close>

definition state_T :: "bool \<Rightarrow> WhereExprState" where
  "state_T w = where_state (stmt_T w [None, None, None, None])"

text \<open>The state of a read on \<open>T\<close> after the comparison \<open>c < 9\<close> was accepted.\<close>

definition state_T_lt :: WhereExprState where
  "state_T_lt =
     (state_T False)\<lparr>
        ops := [\<lparr>op_desc = col_c, op_expr = PTConstInt 9, yql_op = YQL_OP_LESS_THAN\<rparr>],
        op_counters := [new_counter, \<lparr>gt_count = 0, lt_count = 1, eq_count = 0\<rparr>,
                        new_counter, new_counter]\<rparr>"

text \<open>The state of a read on \<open>T\<close> after the comparison \<open>c > 3\<close> was accepted.\<close>

definition state_T_gt :: WhereExprState where
  "state_T_gt =
     (state_T False)\<lparr>
        ops := [\<lparr>op_desc = col_c, op_expr = PTConstInt 3, yql_op = YQL_OP_GREATER_THAN\<rparr>],
        op_counters := [new_counter, \<lparr>gt_count = 1, lt_count = 0, eq_count = 0\<rparr>,
                        new_counter, new_counter]\<rparr>"

text \<open>
  A second table, \<open>U(h1 int hash, h2 int hash, h3 int hash, c int primary)\<close>, with three
  hash columns, and a read on it as \<^verbatim>\<open>LookupTable\<close> and the \<^verbatim>\<open>resize\<close> of
  \<^verbatim>\<open>AnalyzeWhereClause\<close> leave it.
\<close>

definition col_h1 :: ColumnDesc where
  "col_h1 = \<lparr>index = 0, column_id = 20, is_hash = True, is_primary = True, is_static = False\<rparr>"

definition col_h2 :: ColumnDesc where
  "col_h2 = \<lparr>index = 1, column_id = 21, is_hash = True, is_primary = True, is_static = False\<rparr>"

definition col_h3 :: ColumnDesc where
  "col_h3 = \<lparr>index = 2, column_id = 22, is_hash = True, is_primary = True, is_static = False\<rparr>"

definition col_uc :: ColumnDesc where
  "col_uc = \<lparr>index = 3, column_id = 23, is_hash = False, is_primary = True, is_static = False\<rparr>"

definition schema_U :: YBSchema where
  "schema_U =
     \<lparr>columns =
        [\<lparr>col_name = ''h1'', col_id = 20, col_is_static = False\<rparr>,
         \<lparr>col_name = ''h2'', col_id = 21, col_is_static = False\<rparr>,
         \<lparr>col_name = ''h3'', col_id = 22, col_is_static = False\<rparr>,
         \<lparr>col_name = ''c'', col_id = 23, col_is_static = False\<rparr>],
      schema_num_key_columns = 4, schema_num_hash_key_columns = 3\<rparr>"

definition read_U :: PTDmlStmt where
  "read_U =
     \<lparr>table_name = \<lparr>namespace_name = Some ''ks'', tbl_name = ''U''\<rparr>,
      is_system = False, table = Some schema_U,
      table_columns = [Some col_h1, Some col_h2, Some col_h3, Some col_uc],
      num_key_columns = 4, num_hash_key_columns = 3,
      key_where_ops = [None, None, None],
      where_ops = [], write_only = False, ttl_seconds = None, column_args = Some []\<rparr>"

text \<open>
  A statement on \<open>T\<close> before \<^verbatim>\<open>LookupTable\<close>, with the table name \<open>name\<close>, and a context
  whose catalog holds \<open>tables\<close>, with the system keyspace write-protected.
\<close>

definition new_stmt :: "bool \<Rightarrow> YBTableName \<Rightarrow> PTDmlStmt" where
  "new_stmt w name =
     \<lparr>table_name = name, is_system = False, table = None, table_columns = [],
      num_key_columns = 0, num_hash_key_columns = 0, key_where_ops = [], where_ops = [],
      write_only = w, ttl_seconds = None, column_args = None\<rparr>"

definition context_with :: "(YBTableName \<times> YBSchema) list \<Rightarrow> SemContext" where
  "context_with tables =
     \<lparr>CurrentKeyspace = ''ks'', catalog = tables, symbol_table = [],
      yb_system_namespace_readonly = True, system_namespace_name = ''system''\<rparr>"

subsection \<open>An invariant of the walk\<close>

text \<open>
  \<open>extends st st'\<close>: the state \<open>st'\<close> has the vectors of \<open>st\<close> at their sizes, the filter
  operations of \<open>st\<close> as a prefix of its own, and every key slot that is filled in \<open>st\<close>
  filled.
\<close>

definition extends :: "WhereExprState \<Rightarrow> WhereExprState \<Rightarrow> bool" where
  "extends st st' \<longleftrightarrow>
     length (op_counters st') = length (op_counters st)
   \<and> length (key_ops st') = length (key_ops st)
   \<and> state_write_only st' = state_write_only st
   \<and> (\<exists>more. ops st' = ops st @ more)
   \<and> (\<forall>i < length (key_ops st). key_ops st ! i \<noteq> None \<longrightarrow> key_ops st' ! i \<noteq> None)"

section \<open>Properties\<close>

subsection \<open>The USING clause\<close>

lemma ttl_range_message_example:
  "ttl_range_message 0 630720000 = ''Valid ttl range : [0, 630720000]''"
  by (simp add: ttl_range_message_def decimal_int_def decimal.simps digit_def)

text \<open>
  C9. With a TTL expression, \<^verbatim>\<open>AnalyzeUsingClause\<close> fails with \<^verbatim>\<open>InvalidTtl\<close>, the two bounds
  in its message, exactly when the value lies outside \<open>[kMinTtlSeconds, kMaxTtlSeconds]\<close>,
  and succeeds exactly when it lies inside; without a TTL expression it succeeds. With
  the bounds \<open>[0, 630720000]\<close> the TTL \<open>-1\<close> fails and the TTL \<open>0\<close> succeeds.
\<close>

theorem AnalyzeUsingClause_ttl_range:
  "((AnalyzeUsingClause lo hi (stmt\<lparr>ttl_seconds := Some t\<rparr>) = InvalidTtl lo hi)
      = (t < lo \<or> hi < t))
   \<and> ((AnalyzeUsingClause lo hi (stmt\<lparr>ttl_seconds := Some t\<rparr>) = OK) = (lo \<le> t \<and> t \<le> hi))
   \<and> AnalyzeUsingClause lo hi (stmt\<lparr>ttl_seconds := None\<rparr>) = OK
   \<and> AnalyzeUsingClause 0 630720000 (stmt\<lparr>ttl_seconds := Some (- 1)\<rparr>)
       = Error ''Valid ttl range : [0, 630720000]'' INVALID_ARGUMENTS
   \<and> AnalyzeUsingClause 0 630720000 (stmt\<lparr>ttl_seconds := Some 0\<rparr>) = OK"
  by (auto simp add: AnalyzeUsingClause_def IsValidTTLSeconds_def ttl_range_message_example)

subsection \<open>The rules of AnalyzeColumnOp\<close>

lemmas AnalyzeColumnOp_defs = AnalyzeColumnOp_def init_key_op_def push_back_op_def
  set_counter_def increase_eq_def increase_lt_def increase_gt_def

lemmas example_defs = col_h_def col_c_def col_s_def col_r_def stmt_T_def state_T_def
  where_state_def num_columns_def new_counter_def

text \<open>
  C8. Where the column has a counter: an EQ that \<^verbatim>\<open>AnalyzeColumnOp\<close> accepts found no EQ, no
  LT/LTE and no GT/GTE recorded for the column, and on a hash column it has stored the
  comparison in the key slot of the column; an EQ on a column with any comparison
  recorded is rejected with the illogical-condition error and changes nothing.
\<close>

theorem AnalyzeColumnOp_EQUAL:
  assumes "index col_desc < length (op_counters st)"
  shows "(\<forall>st'. AnalyzeColumnOp st YQL_OP_EQUAL col_desc v = Inr (OK, st') \<longrightarrow>
            eq_count (op_counters st ! index col_desc) = 0
          \<and> lt_count (op_counters st ! index col_desc) = 0
          \<and> gt_count (op_counters st ! index col_desc) = 0
          \<and> (is_hash col_desc \<longrightarrow>
                index col_desc < length (key_ops st)
              \<and> key_ops st' = (key_ops st)[index col_desc :=
                   Some \<lparr>op_desc = col_desc, op_expr = v, yql_op = YQL_OP_EQUAL\<rparr>]
              \<and> key_ops st' ! index col_desc =
                   Some \<lparr>op_desc = col_desc, op_expr = v, yql_op = YQL_OP_EQUAL\<rparr>))
       \<and> (eq_count (op_counters st ! index col_desc) > 0
          \<or> lt_count (op_counters st ! index col_desc) > 0
          \<or> gt_count (op_counters st ! index col_desc) > 0 \<longrightarrow>
            AnalyzeColumnOp st YQL_OP_EQUAL col_desc v = Inr (IllogicalCondition, st))"
  using assms by (auto simp add: AnalyzeColumnOp_defs Let_def split: if_splits)

theorem AnalyzeColumnOp_EQUAL_witness:
  "index col_h < length (op_counters (state_T True))
   \<and> AnalyzeColumnOp (state_T True) YQL_OP_EQUAL col_h (PTConstInt 5)
       = Inr (OK, (state_T True)\<lparr>
           key_ops := [Some \<lparr>op_desc = col_h, op_expr = PTConstInt 5, yql_op = YQL_OP_EQUAL\<rparr>, None],
           op_counters := [\<lparr>gt_count = 0, lt_count = 0, eq_count = 1\<rparr>, new_counter, new_counter, new_counter]\<rparr>)
   \<and> eq_count (op_counters (state_T True) ! index col_h) = 0
   \<and> key_ops (state_T True\<lparr>
           key_ops := [Some \<lparr>op_desc = col_h, op_expr = PTConstInt 5, yql_op = YQL_OP_EQUAL\<rparr>, None],
           op_counters := [\<lparr>gt_count = 0, lt_count = 0, eq_count = 1\<rparr>, new_counter, new_counter, new_counter]\<rparr>) ! index col_h
       = Some \<lparr>op_desc = col_h, op_expr = PTConstInt 5, yql_op = YQL_OP_EQUAL\<rparr>"
  using AnalyzeColumnOp_EQUAL [of col_h "state_T True" "PTConstInt 5"]
  by (simp add: AnalyzeColumnOp_defs example_defs Let_def)

text \<open>
  C2, as the specification has it, fails: on a read of \<open>T\<close>, the comparison \<open>r > 3\<close> on the
  regular column \<open>r\<close> is rejected.
\<close>

theorem regular_column_read_rejected:
  "\<not> state_write_only (state_T False) \<and> \<not> is_hash col_r \<and> \<not> is_primary col_r
   \<and> AnalyzeColumnOp (state_T False) YQL_OP_GREATER_THAN col_r (PTConstInt 3)
       = Inr (NonKeyColumnInWhere, state_T False)"
  by (simp add: AnalyzeColumnOp_defs example_defs Let_def)

text \<open>
  C2, amended. On a read as on a write, a comparison EQ, LT, LTE, GT or GTE on a regular
  column (neither hash nor primary) is rejected: with \<^verbatim>\<open>NonKeyColumnInWhere\<close>, or, for an
  EQ on a column that has a comparison recorded already, with the illogical-condition
  error. Neither the filter operations nor the key slots change.
\<close>

theorem AnalyzeColumnOp_regular_column:
  assumes "\<not> is_hash col_desc" and "\<not> is_primary col_desc"
    and "index col_desc < length (op_counters st)"
    and "opr \<in> {YQL_OP_EQUAL, YQL_OP_LESS_THAN, YQL_OP_LESS_THAN_EQUAL,
                 YQL_OP_GREATER_THAN, YQL_OP_GREATER_THAN_EQUAL}"
  shows "\<exists>s st'. AnalyzeColumnOp st opr col_desc v = Inr (s, st')
           \<and> s = (if opr = YQL_OP_EQUAL
                     \<and> (eq_count (op_counters st ! index col_desc) > 0
                        \<or> gt_count (op_counters st ! index col_desc) > 0
                        \<or> lt_count (op_counters st ! index col_desc) > 0)
                  then IllogicalCondition else NonKeyColumnInWhere)
           \<and> ops st' = ops st \<and> key_ops st' = key_ops st
           \<and> state_write_only st' = state_write_only st"
  using assms by (auto simp add: AnalyzeColumnOp_defs Let_def)

theorem AnalyzeColumnOp_regular_column_witness:
  "\<not> is_hash col_r \<and> \<not> is_primary col_r \<and> index col_r < length (op_counters (state_T False))
   \<and> (\<exists>st'. AnalyzeColumnOp (state_T False) YQL_OP_EQUAL col_r (PTConstInt 1)
              = Inr (NonKeyColumnInWhere, st')
            \<and> ops st' = ops (state_T False) \<and> key_ops st' = key_ops (state_T False))"
  using AnalyzeColumnOp_regular_column [of col_r "state_T False" YQL_OP_EQUAL "PTConstInt 1"]
  by (auto simp add: example_defs)

text \<open>
  C7, as the specification has it, fails: on a read of \<open>T\<close>, \<open>c < 9\<close> and then \<open>c > 3\<close> on
  the clustering column \<open>c\<close> are both accepted.
\<close>

theorem less_then_greater_accepted:
  "AnalyzeColumnOp (state_T False) YQL_OP_LESS_THAN col_c (PTConstInt 9) = Inr (OK, state_T_lt)
   \<and> AnalyzeColumnOp state_T_lt YQL_OP_GREATER_THAN col_c (PTConstInt 3)
       = Inr (OK, state_T_lt\<lparr>
           ops := [\<lparr>op_desc = col_c, op_expr = PTConstInt 9, yql_op = YQL_OP_LESS_THAN\<rparr>,
                   \<lparr>op_desc = col_c, op_expr = PTConstInt 3, yql_op = YQL_OP_GREATER_THAN\<rparr>],
           op_counters := [new_counter, \<lparr>gt_count = 1, lt_count = 1, eq_count = 0\<rparr>,
                           new_counter, new_counter]\<rparr>)"
  by (simp add: AnalyzeColumnOp_defs example_defs state_T_lt_def Let_def)

text \<open>
  What an accepted comparison records, and what the counters of a column reject and
  accept.
\<close>

lemma accepted_counters:
  assumes "index col_desc < length (op_counters st)"
    and "AnalyzeColumnOp st opr col_desc v = Inr (OK, st')"
  shows "opr = YQL_OP_EQUAL \<longrightarrow>
           op_counters st' = (op_counters st)[index col_desc :=
             (op_counters st ! index col_desc)
               \<lparr>eq_count := eq_count (op_counters st ! index col_desc) + 1\<rparr>]"
    and "opr = YQL_OP_LESS_THAN \<or> opr = YQL_OP_LESS_THAN_EQUAL \<longrightarrow>
           st' = st\<lparr>ops := ops st @ [\<lparr>op_desc = col_desc, op_expr = v, yql_op = opr\<rparr>],
                    op_counters := (op_counters st)[index col_desc :=
                      (op_counters st ! index col_desc)
                        \<lparr>lt_count := lt_count (op_counters st ! index col_desc) + 1\<rparr>]\<rparr>
         \<and> \<not> state_write_only st \<and> \<not> is_hash col_desc \<and> is_primary col_desc
         \<and> eq_count (op_counters st ! index col_desc) = 0
         \<and> lt_count (op_counters st ! index col_desc) = 0"
    and "opr = YQL_OP_GREATER_THAN \<or> opr = YQL_OP_GREATER_THAN_EQUAL \<longrightarrow>
           st' = st\<lparr>ops := ops st @ [\<lparr>op_desc = col_desc, op_expr = v, yql_op = opr\<rparr>],
                    op_counters := (op_counters st)[index col_desc :=
                      (op_counters st ! index col_desc)
                        \<lparr>gt_count := gt_count (op_counters st ! index col_desc) + 1\<rparr>]\<rparr>
         \<and> \<not> state_write_only st \<and> \<not> is_hash col_desc \<and> is_primary col_desc
         \<and> eq_count (op_counters st ! index col_desc) = 0
         \<and> gt_count (op_counters st ! index col_desc) = 0"
    and "opr = YQL_OP_EQUAL \<or> opr = YQL_OP_LESS_THAN \<or> opr = YQL_OP_LESS_THAN_EQUAL
         \<or> opr = YQL_OP_GREATER_THAN \<or> opr = YQL_OP_GREATER_THAN_EQUAL"
    and "length (op_counters st') = length (op_counters st)"
    and "state_write_only st' = state_write_only st"
  using assms by (auto simp add: AnalyzeColumnOp_defs Let_def split: if_splits)

lemma rejected_by_counters:
  assumes "index col_desc < length (op_counters st)"
  shows "eq_count (op_counters st ! index col_desc) > 0
          \<or> lt_count (op_counters st ! index col_desc) > 0
          \<or> gt_count (op_counters st ! index col_desc) > 0 \<Longrightarrow>
            AnalyzeColumnOp st YQL_OP_EQUAL col_desc v = Inr (IllogicalCondition, st)"
    and "opr = YQL_OP_LESS_THAN \<or> opr = YQL_OP_LESS_THAN_EQUAL \<Longrightarrow>
          eq_count (op_counters st ! index col_desc) > 0
             \<or> lt_count (op_counters st ! index col_desc) > 0 \<Longrightarrow>
            \<exists>s. AnalyzeColumnOp st opr col_desc v = Inr (s, st) \<and> s \<noteq> OK"
    and "opr = YQL_OP_GREATER_THAN \<or> opr = YQL_OP_GREATER_THAN_EQUAL \<Longrightarrow>
          eq_count (op_counters st ! index col_desc) > 0
             \<or> gt_count (op_counters st ! index col_desc) > 0 \<Longrightarrow>
            \<exists>s. AnalyzeColumnOp st opr col_desc v = Inr (s, st) \<and> s \<noteq> OK"
    and "opr = YQL_OP_LESS_THAN \<or> opr = YQL_OP_LESS_THAN_EQUAL
          \<or> opr = YQL_OP_GREATER_THAN \<or> opr = YQL_OP_GREATER_THAN_EQUAL \<Longrightarrow>
         state_write_only st \<or> is_hash col_desc \<or> \<not> is_primary col_desc \<Longrightarrow>
            \<exists>s. AnalyzeColumnOp st opr col_desc v = Inr (s, st) \<and> s \<noteq> OK"
  using assms by (auto simp add: AnalyzeColumnOp_defs Let_def)

lemma accepted_range:
  assumes "index col_desc < length (op_counters st)"
    and "\<not> state_write_only st" and "\<not> is_hash col_desc" and "is_primary col_desc"
    and "eq_count (op_counters st ! index col_desc) = 0"
  shows "opr = YQL_OP_LESS_THAN \<or> opr = YQL_OP_LESS_THAN_EQUAL \<Longrightarrow>
           lt_count (op_counters st ! index col_desc) = 0 \<Longrightarrow>
           \<exists>st'. AnalyzeColumnOp st opr col_desc v = Inr (OK, st')"
    and "opr = YQL_OP_GREATER_THAN \<or> opr = YQL_OP_GREATER_THAN_EQUAL \<Longrightarrow>
           gt_count (op_counters st ! index col_desc) = 0 \<Longrightarrow>
           \<exists>st'. AnalyzeColumnOp st opr col_desc v = Inr (OK, st')"
  using assms by (auto simp add: AnalyzeColumnOp_defs Let_def)


lemma second_comparison:
  assumes idx: "index col_desc < length (op_counters st)"
    and acc: "AnalyzeColumnOp st opr col_desc v = Inr (OK, st1)"
  shows "AnalyzeColumnOp st1 YQL_OP_EQUAL col_desc v2 = Inr (IllogicalCondition, st1)"
    and "opr = YQL_OP_EQUAL \<Longrightarrow>
         opr2 = YQL_OP_LESS_THAN \<or> opr2 = YQL_OP_LESS_THAN_EQUAL
           \<or> opr2 = YQL_OP_GREATER_THAN \<or> opr2 = YQL_OP_GREATER_THAN_EQUAL \<Longrightarrow>
         \<exists>s. AnalyzeColumnOp st1 opr2 col_desc v2 = Inr (s, st1) \<and> s \<noteq> OK"
    and "opr = YQL_OP_LESS_THAN \<or> opr = YQL_OP_LESS_THAN_EQUAL \<Longrightarrow>
         opr2 = YQL_OP_LESS_THAN \<or> opr2 = YQL_OP_LESS_THAN_EQUAL \<Longrightarrow>
         \<exists>s. AnalyzeColumnOp st1 opr2 col_desc v2 = Inr (s, st1) \<and> s \<noteq> OK"
    and "opr = YQL_OP_GREATER_THAN \<or> opr = YQL_OP_GREATER_THAN_EQUAL \<Longrightarrow>
         opr2 = YQL_OP_GREATER_THAN \<or> opr2 = YQL_OP_GREATER_THAN_EQUAL \<Longrightarrow>
         \<exists>s. AnalyzeColumnOp st1 opr2 col_desc v2 = Inr (s, st1) \<and> s \<noteq> OK"
    and "opr = YQL_OP_LESS_THAN \<or> opr = YQL_OP_LESS_THAN_EQUAL \<Longrightarrow>
         opr2 = YQL_OP_GREATER_THAN \<or> opr2 = YQL_OP_GREATER_THAN_EQUAL \<Longrightarrow>
         gt_count (op_counters st ! index col_desc) = 0 \<Longrightarrow>
         \<exists>st2. AnalyzeColumnOp st1 opr2 col_desc v2 = Inr (OK, st2)"
    and "opr = YQL_OP_GREATER_THAN \<or> opr = YQL_OP_GREATER_THAN_EQUAL \<Longrightarrow>
         opr2 = YQL_OP_LESS_THAN \<or> opr2 = YQL_OP_LESS_THAN_EQUAL \<Longrightarrow>
         lt_count (op_counters st ! index col_desc) = 0 \<Longrightarrow>
         \<exists>st2. AnalyzeColumnOp st1 opr2 col_desc v2 = Inr (OK, st2)"
proof -
  let ?c = "op_counters st ! index col_desc"
  let ?c1 = "op_counters st1 ! index col_desc"
  note a = accepted_counters [OF idx acc]
  have idx1: "index col_desc < length (op_counters st1)" using a(5) idx by simp
  have eq1: "?c1 = ?c\<lparr>eq_count := eq_count ?c + 1\<rparr>" if "opr = YQL_OP_EQUAL"
    using a(1) that idx by simp
  have lt1: "?c1 = ?c\<lparr>lt_count := lt_count ?c + 1\<rparr>"
    and ltr: "\<not> state_write_only st1" "\<not> is_hash col_desc" "is_primary col_desc"
      "eq_count ?c = 0"
    if "opr = YQL_OP_LESS_THAN \<or> opr = YQL_OP_LESS_THAN_EQUAL"
    using a(2) that idx by simp_all
  have gt1: "?c1 = ?c\<lparr>gt_count := gt_count ?c + 1\<rparr>"
    and gtr: "\<not> state_write_only st1" "\<not> is_hash col_desc" "is_primary col_desc"
      "eq_count ?c = 0"
    if "opr = YQL_OP_GREATER_THAN \<or> opr = YQL_OP_GREATER_THAN_EQUAL"
    using a(3) that idx by simp_all
  have some: "eq_count ?c1 > 0 \<or> lt_count ?c1 > 0 \<or> gt_count ?c1 > 0"
    using a(4) eq1 lt1 gt1 by auto
  show "AnalyzeColumnOp st1 YQL_OP_EQUAL col_desc v2 = Inr (IllogicalCondition, st1)"
    using rejected_by_counters(1) [OF idx1 some] .
  show "\<exists>s. AnalyzeColumnOp st1 opr2 col_desc v2 = Inr (s, st1) \<and> s \<noteq> OK"
    if e: "opr = YQL_OP_EQUAL"
      and r: "opr2 = YQL_OP_LESS_THAN \<or> opr2 = YQL_OP_LESS_THAN_EQUAL
           \<or> opr2 = YQL_OP_GREATER_THAN \<or> opr2 = YQL_OP_GREATER_THAN_EQUAL"
  proof -
    have p: "eq_count ?c1 > 0" using eq1 [OF e] by simp
    from r consider "opr2 = YQL_OP_LESS_THAN \<or> opr2 = YQL_OP_LESS_THAN_EQUAL"
      | "opr2 = YQL_OP_GREATER_THAN \<or> opr2 = YQL_OP_GREATER_THAN_EQUAL" by blast
    then show ?thesis
    proof cases
      case 1
      from rejected_by_counters(2) [OF idx1 1] p show ?thesis by blast
    next
      case 2
      from rejected_by_counters(3) [OF idx1 2] p show ?thesis by blast
    qed
  qed
  show "\<exists>s. AnalyzeColumnOp st1 opr2 col_desc v2 = Inr (s, st1) \<and> s \<noteq> OK"
    if l: "opr = YQL_OP_LESS_THAN \<or> opr = YQL_OP_LESS_THAN_EQUAL"
      and r: "opr2 = YQL_OP_LESS_THAN \<or> opr2 = YQL_OP_LESS_THAN_EQUAL"
  proof -
    have "lt_count ?c1 > 0" using lt1 [OF l] by simp
    with rejected_by_counters(2) [OF idx1 r] show ?thesis by blast
  qed
  show "\<exists>s. AnalyzeColumnOp st1 opr2 col_desc v2 = Inr (s, st1) \<and> s \<noteq> OK"
    if g: "opr = YQL_OP_GREATER_THAN \<or> opr = YQL_OP_GREATER_THAN_EQUAL"
      and r: "opr2 = YQL_OP_GREATER_THAN \<or> opr2 = YQL_OP_GREATER_THAN_EQUAL"
  proof -
    have "gt_count ?c1 > 0" using gt1 [OF g] by simp
    with rejected_by_counters(3) [OF idx1 r] show ?thesis by blast
  qed
  show "\<exists>st2. AnalyzeColumnOp st1 opr2 col_desc v2 = Inr (OK, st2)"
    if l: "opr = YQL_OP_LESS_THAN \<or> opr = YQL_OP_LESS_THAN_EQUAL"
      and r: "opr2 = YQL_OP_GREATER_THAN \<or> opr2 = YQL_OP_GREATER_THAN_EQUAL"
      and z: "gt_count ?c = 0"
  proof -
    have "eq_count ?c1 = 0" "gt_count ?c1 = 0" using lt1 [OF l] ltr(4) [OF l] z by simp_all
    with accepted_range(2) [OF idx1 ltr(1-3) [OF l] _ r] show ?thesis by blast
  qed
  show "\<exists>st2. AnalyzeColumnOp st1 opr2 col_desc v2 = Inr (OK, st2)"
    if g: "opr = YQL_OP_GREATER_THAN \<or> opr = YQL_OP_GREATER_THAN_EQUAL"
      and r: "opr2 = YQL_OP_LESS_THAN \<or> opr2 = YQL_OP_LESS_THAN_EQUAL"
      and z: "lt_count ?c = 0"
  proof -
    have "eq_count ?c1 = 0" "lt_count ?c1 = 0" using gt1 [OF g] gtr(4) [OF g] z by simp_all
    with accepted_range(1) [OF idx1 gtr(1-3) [OF g] _ r] show ?thesis by blast
  qed
qed

text \<open>
  C7, amended. On a column that has a counter: an EQ after any recorded comparison is
  rejected; an LT or LTE after a recorded EQ or LT/LTE is rejected; a GT or GTE after a
  recorded EQ or GT/GTE is rejected; on a read, on a clustering column with no EQ
  recorded, an LT or LTE is accepted when no LT/LTE is recorded and a GT or GTE when no
  GT/GTE is recorded. An accepted comparison adds one to the count of its own family and
  leaves the rest of the counters as they were. So after an accepted comparison, a second
  one on the same column is rejected when it is an EQ, when the first was an EQ, or when
  both are of the same family; a GT or GTE after an accepted LT or LTE, and an LT or LTE
  after an accepted GT or GTE, is accepted when the column had none of its family
  recorded: not every pairing of kinds is rejected.
\<close>

theorem AnalyzeColumnOp_repeated:
  assumes "index col_desc < length (op_counters st)"
  shows "(eq_count (op_counters st ! index col_desc) > 0
          \<or> lt_count (op_counters st ! index col_desc) > 0
          \<or> gt_count (op_counters st ! index col_desc) > 0 \<longrightarrow>
            AnalyzeColumnOp st YQL_OP_EQUAL col_desc v = Inr (IllogicalCondition, st))
       \<and> ((opr = YQL_OP_LESS_THAN \<or> opr = YQL_OP_LESS_THAN_EQUAL)
          \<and> (eq_count (op_counters st ! index col_desc) > 0
             \<or> lt_count (op_counters st ! index col_desc) > 0) \<longrightarrow>
            (\<exists>s. AnalyzeColumnOp st opr col_desc v = Inr (s, st) \<and> s \<noteq> OK))
       \<and> ((opr = YQL_OP_GREATER_THAN \<or> opr = YQL_OP_GREATER_THAN_EQUAL)
          \<and> (eq_count (op_counters st ! index col_desc) > 0
             \<or> gt_count (op_counters st ! index col_desc) > 0) \<longrightarrow>
            (\<exists>s. AnalyzeColumnOp st opr col_desc v = Inr (s, st) \<and> s \<noteq> OK))
       \<and> (\<not> state_write_only st \<and> \<not> is_hash col_desc \<and> is_primary col_desc
          \<and> eq_count (op_counters st ! index col_desc) = 0 \<longrightarrow>
            ((opr = YQL_OP_LESS_THAN \<or> opr = YQL_OP_LESS_THAN_EQUAL)
             \<and> lt_count (op_counters st ! index col_desc) = 0 \<longrightarrow>
               (\<exists>st'. AnalyzeColumnOp st opr col_desc v = Inr (OK, st')))
          \<and> ((opr = YQL_OP_GREATER_THAN \<or> opr = YQL_OP_GREATER_THAN_EQUAL)
             \<and> gt_count (op_counters st ! index col_desc) = 0 \<longrightarrow>
               (\<exists>st'. AnalyzeColumnOp st opr col_desc v = Inr (OK, st'))))
       \<and> (\<forall>st1. AnalyzeColumnOp st opr col_desc v = Inr (OK, st1) \<longrightarrow>
            (opr = YQL_OP_EQUAL \<longrightarrow>
               op_counters st1 = (op_counters st)[index col_desc :=
                 (op_counters st ! index col_desc)
                   \<lparr>eq_count := eq_count (op_counters st ! index col_desc) + 1\<rparr>])
          \<and> (opr = YQL_OP_LESS_THAN \<or> opr = YQL_OP_LESS_THAN_EQUAL \<longrightarrow>
               op_counters st1 = (op_counters st)[index col_desc :=
                 (op_counters st ! index col_desc)
                   \<lparr>lt_count := lt_count (op_counters st ! index col_desc) + 1\<rparr>])
          \<and> (opr = YQL_OP_GREATER_THAN \<or> opr = YQL_OP_GREATER_THAN_EQUAL \<longrightarrow>
               op_counters st1 = (op_counters st)[index col_desc :=
                 (op_counters st ! index col_desc)
                   \<lparr>gt_count := gt_count (op_counters st ! index col_desc) + 1\<rparr>])
          \<and> AnalyzeColumnOp st1 YQL_OP_EQUAL col_desc v2 = Inr (IllogicalCondition, st1)
          \<and> (opr = YQL_OP_EQUAL
              \<and> (opr2 = YQL_OP_LESS_THAN \<or> opr2 = YQL_OP_LESS_THAN_EQUAL
                 \<or> opr2 = YQL_OP_GREATER_THAN \<or> opr2 = YQL_OP_GREATER_THAN_EQUAL) \<longrightarrow>
               (\<exists>s. AnalyzeColumnOp st1 opr2 col_desc v2 = Inr (s, st1) \<and> s \<noteq> OK))
          \<and> ((opr = YQL_OP_LESS_THAN \<or> opr = YQL_OP_LESS_THAN_EQUAL)
              \<and> (opr2 = YQL_OP_LESS_THAN \<or> opr2 = YQL_OP_LESS_THAN_EQUAL) \<longrightarrow>
               (\<exists>s. AnalyzeColumnOp st1 opr2 col_desc v2 = Inr (s, st1) \<and> s \<noteq> OK))
          \<and> ((opr = YQL_OP_GREATER_THAN \<or> opr = YQL_OP_GREATER_THAN_EQUAL)
              \<and> (opr2 = YQL_OP_GREATER_THAN \<or> opr2 = YQL_OP_GREATER_THAN_EQUAL) \<longrightarrow>
               (\<exists>s. AnalyzeColumnOp st1 opr2 col_desc v2 = Inr (s, st1) \<and> s \<noteq> OK))
          \<and> ((opr = YQL_OP_LESS_THAN \<or> opr = YQL_OP_LESS_THAN_EQUAL)
              \<and> (opr2 = YQL_OP_GREATER_THAN \<or> opr2 = YQL_OP_GREATER_THAN_EQUAL)
              \<and> gt_count (op_counters st ! index col_desc) = 0 \<longrightarrow>
               (\<exists>st2. AnalyzeColumnOp st1 opr2 col_desc v2 = Inr (OK, st2)))
          \<and> ((opr = YQL_OP_GREATER_THAN \<or> opr = YQL_OP_GREATER_THAN_EQUAL)
              \<and> (opr2 = YQL_OP_LESS_THAN \<or> opr2 = YQL_OP_LESS_THAN_EQUAL)
              \<and> lt_count (op_counters st ! index col_desc) = 0 \<longrightarrow>
               (\<exists>st2. AnalyzeColumnOp st1 opr2 col_desc v2 = Inr (OK, st2))))"
proof (intro conjI allI impI)
  fix st1
  assume acc: "AnalyzeColumnOp st opr col_desc v = Inr (OK, st1)"
  note a = accepted_counters [OF assms acc]
  note b = second_comparison [OF assms acc]
  {
    assume "opr = YQL_OP_EQUAL"
    with a(1) show "op_counters st1 = (op_counters st)[index col_desc :=
                 (op_counters st ! index col_desc)
                   \<lparr>eq_count := eq_count (op_counters st ! index col_desc) + 1\<rparr>]" by simp
  }
  {
    assume "opr = YQL_OP_LESS_THAN \<or> opr = YQL_OP_LESS_THAN_EQUAL"
    with a(2) show "op_counters st1 = (op_counters st)[index col_desc :=
                 (op_counters st ! index col_desc)
                   \<lparr>lt_count := lt_count (op_counters st ! index col_desc) + 1\<rparr>]" by simp
  }
  {
    assume "opr = YQL_OP_GREATER_THAN \<or> opr = YQL_OP_GREATER_THAN_EQUAL"
    with a(3) show "op_counters st1 = (op_counters st)[index col_desc :=
                 (op_counters st ! index col_desc)
                   \<lparr>gt_count := gt_count (op_counters st ! index col_desc) + 1\<rparr>]" by simp
  }
  show "AnalyzeColumnOp st1 YQL_OP_EQUAL col_desc v2 = Inr (IllogicalCondition, st1)"
    by (rule b(1))
  {
    assume "opr = YQL_OP_EQUAL
              \<and> (opr2 = YQL_OP_LESS_THAN \<or> opr2 = YQL_OP_LESS_THAN_EQUAL
                 \<or> opr2 = YQL_OP_GREATER_THAN \<or> opr2 = YQL_OP_GREATER_THAN_EQUAL)"
    then show "\<exists>s. AnalyzeColumnOp st1 opr2 col_desc v2 = Inr (s, st1) \<and> s \<noteq> OK"
      using b(2) by blast
  }
  {
    assume "(opr = YQL_OP_LESS_THAN \<or> opr = YQL_OP_LESS_THAN_EQUAL)
              \<and> (opr2 = YQL_OP_LESS_THAN \<or> opr2 = YQL_OP_LESS_THAN_EQUAL)"
    then show "\<exists>s. AnalyzeColumnOp st1 opr2 col_desc v2 = Inr (s, st1) \<and> s \<noteq> OK"
      using b(3) by blast
  }
  {
    assume "(opr = YQL_OP_GREATER_THAN \<or> opr = YQL_OP_GREATER_THAN_EQUAL)
              \<and> (opr2 = YQL_OP_GREATER_THAN \<or> opr2 = YQL_OP_GREATER_THAN_EQUAL)"
    then show "\<exists>s. AnalyzeColumnOp st1 opr2 col_desc v2 = Inr (s, st1) \<and> s \<noteq> OK"
      using b(4) by blast
  }
  {
    assume "(opr = YQL_OP_LESS_THAN \<or> opr = YQL_OP_LESS_THAN_EQUAL)
              \<and> (opr2 = YQL_OP_GREATER_THAN \<or> opr2 = YQL_OP_GREATER_THAN_EQUAL)
              \<and> gt_count (op_counters st ! index col_desc) = 0"
    then show "\<exists>st2. AnalyzeColumnOp st1 opr2 col_desc v2 = Inr (OK, st2)"
      using b(5) by blast
  }
  {
    assume "(opr = YQL_OP_GREATER_THAN \<or> opr = YQL_OP_GREATER_THAN_EQUAL)
              \<and> (opr2 = YQL_OP_LESS_THAN \<or> opr2 = YQL_OP_LESS_THAN_EQUAL)
              \<and> lt_count (op_counters st ! index col_desc) = 0"
    then show "\<exists>st2. AnalyzeColumnOp st1 opr2 col_desc v2 = Inr (OK, st2)"
      using b(6) by blast
  }
next
  assume "eq_count (op_counters st ! index col_desc) > 0
          \<or> lt_count (op_counters st ! index col_desc) > 0
          \<or> gt_count (op_counters st ! index col_desc) > 0"
  then show "AnalyzeColumnOp st YQL_OP_EQUAL col_desc v = Inr (IllogicalCondition, st)"
    by (rule rejected_by_counters(1) [OF assms])
next
  assume "(opr = YQL_OP_LESS_THAN \<or> opr = YQL_OP_LESS_THAN_EQUAL)
          \<and> (eq_count (op_counters st ! index col_desc) > 0
             \<or> lt_count (op_counters st ! index col_desc) > 0)"
  then show "\<exists>s. AnalyzeColumnOp st opr col_desc v = Inr (s, st) \<and> s \<noteq> OK"
    using rejected_by_counters(2) [OF assms] by blast
next
  assume "(opr = YQL_OP_GREATER_THAN \<or> opr = YQL_OP_GREATER_THAN_EQUAL)
          \<and> (eq_count (op_counters st ! index col_desc) > 0
             \<or> gt_count (op_counters st ! index col_desc) > 0)"
  then show "\<exists>s. AnalyzeColumnOp st opr col_desc v = Inr (s, st) \<and> s \<noteq> OK"
    using rejected_by_counters(3) [OF assms] by blast
next
  assume r: "\<not> state_write_only st \<and> \<not> is_hash col_desc \<and> is_primary col_desc
          \<and> eq_count (op_counters st ! index col_desc) = 0"
  {
    assume "(opr = YQL_OP_LESS_THAN \<or> opr = YQL_OP_LESS_THAN_EQUAL)
             \<and> lt_count (op_counters st ! index col_desc) = 0"
    with r show "\<exists>st'. AnalyzeColumnOp st opr col_desc v = Inr (OK, st')"
      using accepted_range(1) [OF assms] by blast
  }
  {
    assume "(opr = YQL_OP_GREATER_THAN \<or> opr = YQL_OP_GREATER_THAN_EQUAL)
             \<and> gt_count (op_counters st ! index col_desc) = 0"
    with r show "\<exists>st'. AnalyzeColumnOp st opr col_desc v = Inr (OK, st')"
      using accepted_range(2) [OF assms] by blast
  }
qed

theorem AnalyzeColumnOp_repeated_witness:
  "index col_c < length (op_counters (state_T False))
   \<and> AnalyzeColumnOp (state_T False) YQL_OP_LESS_THAN col_c (PTConstInt 9) = Inr (OK, state_T_lt)
   \<and> op_counters state_T_lt
       = [new_counter, \<lparr>gt_count = 0, lt_count = 1, eq_count = 0\<rparr>, new_counter, new_counter]
   \<and> AnalyzeColumnOp state_T_lt YQL_OP_EQUAL col_c (PTConstInt 1)
       = Inr (IllogicalCondition, state_T_lt)
   \<and> (\<exists>s. AnalyzeColumnOp state_T_lt YQL_OP_LESS_THAN_EQUAL col_c (PTConstInt 1)
             = Inr (s, state_T_lt) \<and> s \<noteq> OK)
   \<and> (\<exists>st2. AnalyzeColumnOp state_T_lt YQL_OP_GREATER_THAN col_c (PTConstInt 3) = Inr (OK, st2))
   \<and> AnalyzeColumnOp (state_T False) YQL_OP_GREATER_THAN col_c (PTConstInt 3)
       = Inr (OK, state_T_gt)
   \<and> op_counters state_T_gt
       = [new_counter, \<lparr>gt_count = 1, lt_count = 0, eq_count = 0\<rparr>, new_counter, new_counter]
   \<and> (\<exists>s. AnalyzeColumnOp state_T_gt YQL_OP_GREATER_THAN_EQUAL col_c (PTConstInt 1)
             = Inr (s, state_T_gt) \<and> s \<noteq> OK)
   \<and> (\<exists>st2. AnalyzeColumnOp state_T_gt YQL_OP_LESS_THAN col_c (PTConstInt 9) = Inr (OK, st2))"
proof -
  have i: "index col_c < length (op_counters (state_T False))"
    by (simp add: example_defs)
  have z: "gt_count (op_counters (state_T False) ! index col_c) = 0"
    "lt_count (op_counters (state_T False) ! index col_c) = 0"
    by (simp_all add: example_defs)
  have l: "AnalyzeColumnOp (state_T False) YQL_OP_LESS_THAN col_c (PTConstInt 9)
             = Inr (OK, state_T_lt)"
    by (simp add: AnalyzeColumnOp_defs example_defs state_T_lt_def Let_def)
  have g: "AnalyzeColumnOp (state_T False) YQL_OP_GREATER_THAN col_c (PTConstInt 3)
             = Inr (OK, state_T_gt)"
    by (simp add: AnalyzeColumnOp_defs example_defs state_T_gt_def Let_def)
  have cl: "(op_counters (state_T False))[index col_c :=
              (op_counters (state_T False) ! index col_c)
                \<lparr>lt_count := lt_count (op_counters (state_T False) ! index col_c) + 1\<rparr>]
            = [new_counter, \<lparr>gt_count = 0, lt_count = 1, eq_count = 0\<rparr>, new_counter, new_counter]"
    and cg: "(op_counters (state_T False))[index col_c :=
              (op_counters (state_T False) ! index col_c)
                \<lparr>gt_count := gt_count (op_counters (state_T False) ! index col_c) + 1\<rparr>]
            = [new_counter, \<lparr>gt_count = 1, lt_count = 0, eq_count = 0\<rparr>, new_counter, new_counter]"
    by (simp_all add: example_defs)
  from AnalyzeColumnOp_repeated [OF i, where opr = YQL_OP_LESS_THAN and v = "PTConstInt 9"
      and ?opr2.0 = YQL_OP_LESS_THAN_EQUAL and ?v2.0 = "PTConstInt 1"] l cl
  have 1: "op_counters state_T_lt
       = [new_counter, \<lparr>gt_count = 0, lt_count = 1, eq_count = 0\<rparr>, new_counter, new_counter]"
    and 2: "AnalyzeColumnOp state_T_lt YQL_OP_EQUAL col_c (PTConstInt 1)
       = Inr (IllogicalCondition, state_T_lt)"
    and 3: "\<exists>s. AnalyzeColumnOp state_T_lt YQL_OP_LESS_THAN_EQUAL col_c (PTConstInt 1)
             = Inr (s, state_T_lt) \<and> s \<noteq> OK"
    by simp_all
  from AnalyzeColumnOp_repeated [OF i, where opr = YQL_OP_LESS_THAN and v = "PTConstInt 9"
      and ?opr2.0 = YQL_OP_GREATER_THAN and ?v2.0 = "PTConstInt 3"] l z
  have 4: "\<exists>st2. AnalyzeColumnOp state_T_lt YQL_OP_GREATER_THAN col_c (PTConstInt 3) = Inr (OK, st2)"
    by simp
  from AnalyzeColumnOp_repeated [OF i, where opr = YQL_OP_GREATER_THAN and v = "PTConstInt 3"
      and ?opr2.0 = YQL_OP_GREATER_THAN_EQUAL and ?v2.0 = "PTConstInt 1"] g cg
  have 5: "op_counters state_T_gt
       = [new_counter, \<lparr>gt_count = 1, lt_count = 0, eq_count = 0\<rparr>, new_counter, new_counter]"
    and 6: "\<exists>s. AnalyzeColumnOp state_T_gt YQL_OP_GREATER_THAN_EQUAL col_c (PTConstInt 1)
             = Inr (s, state_T_gt) \<and> s \<noteq> OK"
    by simp_all
  from AnalyzeColumnOp_repeated [OF i, where opr = YQL_OP_GREATER_THAN and v = "PTConstInt 3"
      and ?opr2.0 = YQL_OP_LESS_THAN and ?v2.0 = "PTConstInt 9"] g z
  have 7: "\<exists>st2. AnalyzeColumnOp state_T_gt YQL_OP_LESS_THAN col_c (PTConstInt 9) = Inr (OK, st2)"
    by simp
  from i l 1 2 3 4 g 5 6 7 show ?thesis by blast
qed

subsection \<open>The loops\<close>

text \<open>Each loop computes what its name says, when its bound is within the vector.\<close>

lemma interval_first: "(idx::nat) < n \<Longrightarrow> {idx..<n} = insert idx {idx + 1..<n}"
  by auto

lemma hash_entries_loop_eq:
  "n \<le> length cs \<Longrightarrow>
   hash_entries_loop cs idx n = Inr (\<forall>i\<in>{idx..<n}. eq_count (cs ! i) \<noteq> 0)"
proof (induction cs idx n rule: hash_entries_loop.induct)
  case (1 cs idx n)
  show ?case
  proof (cases "idx < n")
    case False
    then show ?thesis by (subst hash_entries_loop.simps) simp
  next
    case True
    then have len: "idx < length cs" using "1.prems" by simp
    show ?thesis
    proof (cases "eq_count (cs ! idx) = 0")
      case True
      with \<open>idx < n\<close> len show ?thesis
        by (subst hash_entries_loop.simps) (simp add: interval_first)
    next
      case False
      with \<open>idx < n\<close> len have "hash_entries_loop cs idx n = hash_entries_loop cs (idx + 1) n"
        by (subst hash_entries_loop.simps) simp
      also have "\<dots> = Inr (\<forall>i\<in>{idx + 1..<n}. eq_count (cs ! i) \<noteq> 0)"
        using "1.IH" [OF \<open>idx < n\<close> len False "1.prems"] .
      finally show ?thesis using False \<open>idx < n\<close> by (simp add: interval_first)
    qed
  qed
qed


lemma range_keys_loop_eq:
  "n \<le> length cs \<Longrightarrow>
   range_keys_loop cs idx n k = Inr (k + length (filter (\<lambda>i. eq_count (cs ! i) \<noteq> 0) [idx..<n]))"
proof (induction cs idx n k rule: range_keys_loop.induct)
  case (1 cs idx n k)
  show ?case
  proof (cases "idx < n")
    case False
    then show ?thesis by (subst range_keys_loop.simps) simp
  next
    case True
    then have len: "idx < length cs" using "1.prems" by simp
    from True len have "range_keys_loop cs idx n k =
        range_keys_loop cs (idx + 1) n (if eq_count (cs ! idx) \<noteq> 0 then k + 1 else k)"
      by (subst range_keys_loop.simps) simp
    also have "\<dots> = Inr ((if eq_count (cs ! idx) \<noteq> 0 then k + 1 else k)
                  + length (filter (\<lambda>i. eq_count (cs ! i) \<noteq> 0) [idx + 1..<n]))"
      using "1.IH" [OF True len "1.prems"] .
    finally show ?thesis using True by (simp add: upt_conv_Cons)
  qed
qed

lemma incomplete_hash_loop_eq:
  "n \<le> length kops \<Longrightarrow>
   incomplete_hash_loop kops idx n = Inr (\<exists>i\<in>{idx..<n}. kops ! i = None)"
proof (induction kops idx n rule: incomplete_hash_loop.induct)
  case (1 kops idx n)
  show ?case
  proof (cases "idx < n")
    case False
    then show ?thesis by (subst incomplete_hash_loop.simps) simp
  next
    case True
    then have len: "idx < length kops" using "1.prems" by simp
    show ?thesis
    proof (cases "IsInitialized (kops ! idx)")
      case False
      with \<open>idx < n\<close> len show ?thesis
        by (subst incomplete_hash_loop.simps) (simp add: interval_first IsInitialized_def)
    next
      case True
      with \<open>idx < n\<close> len
      have "incomplete_hash_loop kops idx n = incomplete_hash_loop kops (idx + 1) n"
        by (subst incomplete_hash_loop.simps) simp
      also have "\<dots> = Inr (\<exists>i\<in>{idx + 1..<n}. kops ! i = None)"
        using "1.IH" [OF \<open>idx < n\<close> len _ "1.prems"] True by simp
      finally show ?thesis using True \<open>idx < n\<close>
        by (auto simp add: interval_first IsInitialized_def)
    qed
  qed
qed

lemma push_front_loop_eq:
  "k \<le> length kops \<Longrightarrow>
   push_front_loop kops k wops = Inr (map the (filter (\<lambda>x. x \<noteq> None) (take k kops)) @ wops)"
proof (induction k arbitrary: wops)
  case 0
  then show ?case by simp
next
  case (Suc k)
  then show ?case
    by (cases "kops ! k") (simp_all add: take_Suc_conv_app_nth)
qed

lemma write_range_columns_loop_eq:
  "n \<le> length args \<Longrightarrow>
   write_range_columns_loop args idx n = Inr (\<exists>i\<in>{idx..<n}. args ! i \<noteq> None)"
proof (induction args idx n rule: write_range_columns_loop.induct)
  case (1 args idx n)
  show ?case
  proof (cases "idx < n")
    case False
    then show ?thesis by (subst write_range_columns_loop.simps) simp
  next
    case True
    then have len: "idx < length args" using "1.prems" by simp
    show ?thesis
    proof (cases "IsInitialized (args ! idx)")
      case True
      with \<open>idx < n\<close> len show ?thesis
        by (subst write_range_columns_loop.simps) (simp add: interval_first IsInitialized_def)
    next
      case False
      with \<open>idx < n\<close> len
      have "write_range_columns_loop args idx n = write_range_columns_loop args (idx + 1) n"
        by (subst write_range_columns_loop.simps) simp
      also have "\<dots> = Inr (\<exists>i\<in>{idx + 1..<n}. args ! i \<noteq> None)"
        using "1.IH" [OF \<open>idx < n\<close> len False "1.prems"] .
      finally show ?thesis using False \<open>idx < n\<close>
        by (simp add: interval_first IsInitialized_def)
    qed
  qed
qed


lemma static_columns_loop_eq:
  "static_columns_loop args idx ws wn =
     (ws \<or> (\<exists>i\<in>{idx..<length args}. \<exists>a. args ! i = Some a \<and> is_static (arg_desc a)),
      wn \<or> (\<exists>i\<in>{idx..<length args}. \<exists>a. args ! i = Some a \<and> \<not> is_static (arg_desc a)))"
proof (induction args idx ws wn rule: static_columns_loop.induct)
  case (1 args idx ws wn)
  show ?case
  proof (cases "idx < length args")
    case False
    then show ?thesis by (subst static_columns_loop.simps) simp
  next
    case len: True
    show ?thesis
    proof (cases "args ! idx")
      case None
      with len have "static_columns_loop args idx ws wn = static_columns_loop args (idx + 1) ws wn"
        by (subst static_columns_loop.simps) simp
      with "1.IH"(1) [OF len None] None len show ?thesis
        by (simp add: interval_first)
    next
      case (Some a)
      show ?thesis
      proof (cases "is_static (arg_desc a)")
        case True
        show ?thesis
        proof (cases wn)
          case True
          with \<open>is_static (arg_desc a)\<close> Some len show ?thesis
            by (subst static_columns_loop.simps) (auto simp add: interval_first)
        next
          case False
          with \<open>is_static (arg_desc a)\<close> Some len
          have "static_columns_loop args idx ws wn = static_columns_loop args (idx + 1) True wn"
            by (subst static_columns_loop.simps) simp
          with "1.IH"(2) [OF len Some refl refl] \<open>is_static (arg_desc a)\<close> False Some len
          show ?thesis by (auto simp add: interval_first)
        qed
      next
        case False
        show ?thesis
        proof (cases ws)
          case True
          with \<open>\<not> is_static (arg_desc a)\<close> Some len show ?thesis
            by (subst static_columns_loop.simps) (auto simp add: interval_first)
        next
          case ws: False
          with \<open>\<not> is_static (arg_desc a)\<close> Some len
          have "static_columns_loop args idx ws wn = static_columns_loop args (idx + 1) ws True"
            by (subst static_columns_loop.simps) simp
          with "1.IH"(2) [OF len Some refl refl] \<open>\<not> is_static (arg_desc a)\<close> ws Some len
          show ?thesis by (auto simp add: interval_first)
        qed
      qed
    qed
  qed
qed

subsection \<open>StaticColumnArgsOnly\<close>

text \<open>
  C3, as the specification has it, fails: on a write to \<open>T\<close> whose only populated argument
  is the one of the hash column \<open>h\<close>, an argument is populated, none is populated in the
  clustering range (index 1) and none after the key (indexes 2 and 3), and
  \<^verbatim>\<open>StaticColumnArgsOnly\<close> returns false.
\<close>

theorem key_only_args_not_static_only:
  "column_args (stmt_T True [Some \<lparr>arg_desc = col_h, arg_expr = PTConstInt 5\<rparr>, None, None, None])
     = Some [Some \<lparr>arg_desc = col_h, arg_expr = PTConstInt 5\<rparr>, None, None, None]
   \<and> num_hash_key_columns
       (stmt_T True [Some \<lparr>arg_desc = col_h, arg_expr = PTConstInt 5\<rparr>, None, None, None]) = 1
   \<and> num_key_columns
       (stmt_T True [Some \<lparr>arg_desc = col_h, arg_expr = PTConstInt 5\<rparr>, None, None, None]) = 2
   \<and> StaticColumnArgsOnly
       (stmt_T True [Some \<lparr>arg_desc = col_h, arg_expr = PTConstInt 5\<rparr>, None, None, None])
     = Inr False"
  by (simp add: StaticColumnArgsOnly_def stmt_T_def write_range_columns_loop.simps
        static_columns_loop.simps IsInitialized_def)

text \<open>
  C3, amended. With the column arguments empty or sized to cover the key columns,
  \<^verbatim>\<open>StaticColumnArgsOnly\<close> returns true if and only if (a) at least one argument at an index
  at or beyond \<open>num_key_columns\<close> is populated, (b) no populated argument lies in the
  clustering range \<open>[num_hash_key_columns, num_key_columns)\<close>, and (c) every populated
  argument at an index at or beyond \<open>num_key_columns\<close> is a static column.
\<close>

theorem StaticColumnArgsOnly_iff:
  assumes "column_args stmt = Some args"
    and "args = [] \<or> num_key_columns stmt \<le> length args"
  shows "StaticColumnArgsOnly stmt =
           Inr ((\<exists>i. num_key_columns stmt \<le> i \<and> i < length args \<and> args ! i \<noteq> None)
              \<and> (\<forall>i. num_hash_key_columns stmt \<le> i \<and> i < num_key_columns stmt
                     \<longrightarrow> args ! i = None)
              \<and> (\<forall>i a. num_key_columns stmt \<le> i \<and> i < length args \<and> args ! i = Some a
                     \<longrightarrow> is_static (arg_desc a)))"
proof (cases "args = []")
  case True
  with assms show ?thesis by (simp add: StaticColumnArgsOnly_def)
next
  case False
  with assms(2) have "num_key_columns stmt \<le> length args" by simp
  with assms(1) False have "StaticColumnArgsOnly stmt =
      Inr ((\<exists>i\<in>{num_key_columns stmt..<length args}.
               \<exists>a. args ! i = Some a \<and> is_static (arg_desc a))
         \<and> \<not> (\<exists>i\<in>{num_hash_key_columns stmt..<num_key_columns stmt}. args ! i \<noteq> None)
         \<and> \<not> (\<exists>i\<in>{num_key_columns stmt..<length args}.
               \<exists>a. args ! i = Some a \<and> \<not> is_static (arg_desc a)))"
    by (simp add: StaticColumnArgsOnly_def write_range_columns_loop_eq static_columns_loop_eq)
  also have "((\<exists>i\<in>{num_key_columns stmt..<length args}.
               \<exists>a. args ! i = Some a \<and> is_static (arg_desc a))
         \<and> \<not> (\<exists>i\<in>{num_hash_key_columns stmt..<num_key_columns stmt}. args ! i \<noteq> None)
         \<and> \<not> (\<exists>i\<in>{num_key_columns stmt..<length args}.
               \<exists>a. args ! i = Some a \<and> \<not> is_static (arg_desc a)))
     = ((\<exists>i. num_key_columns stmt \<le> i \<and> i < length args \<and> args ! i \<noteq> None)
              \<and> (\<forall>i. num_hash_key_columns stmt \<le> i \<and> i < num_key_columns stmt
                     \<longrightarrow> args ! i = None)
              \<and> (\<forall>i a. num_key_columns stmt \<le> i \<and> i < length args \<and> args ! i = Some a
                     \<longrightarrow> is_static (arg_desc a)))"
    by (auto simp add: Bex_def)
  finally show ?thesis .
qed

theorem StaticColumnArgsOnly_iff_witness:
  "column_args (stmt_T True [None, None, Some \<lparr>arg_desc = col_s, arg_expr = PTConstInt 1\<rparr>, None])
     = Some [None, None, Some \<lparr>arg_desc = col_s, arg_expr = PTConstInt 1\<rparr>, None]
   \<and> num_key_columns
        (stmt_T True [None, None, Some \<lparr>arg_desc = col_s, arg_expr = PTConstInt 1\<rparr>, None])
       \<le> length [None, None, Some \<lparr>arg_desc = col_s, arg_expr = PTConstInt 1\<rparr>, None :: ColumnArg option]
   \<and> StaticColumnArgsOnly
        (stmt_T True [None, None, Some \<lparr>arg_desc = col_s, arg_expr = PTConstInt 1\<rparr>, None])
       = Inr True"
proof -
  let ?args = "[None, None, Some \<lparr>arg_desc = col_s, arg_expr = PTConstInt 1\<rparr>, None]"
  have a: "column_args (stmt_T True ?args) = Some ?args" by (simp add: stmt_T_def)
  have k: "?args = [] \<or> num_key_columns (stmt_T True ?args) \<le> length ?args"
    by (simp add: stmt_T_def)
  have h: "num_hash_key_columns (stmt_T True ?args) = 1" "num_key_columns (stmt_T True ?args) = 2"
    by (simp_all add: stmt_T_def)
  have 1: "\<exists>i. 2 \<le> i \<and> i < length ?args \<and> ?args ! i \<noteq> None"
    by (rule exI [of _ 2]) simp
  have 2: "\<forall>i. 1 \<le> i \<and> i < 2 \<longrightarrow> ?args ! i = None"
    by (auto simp add: nth_Cons split: nat.splits)
  have 3: "\<forall>i a. 2 \<le> i \<and> i < length ?args \<and> ?args ! i = Some a \<longrightarrow> is_static (arg_desc a)"
    by (auto simp add: nth_Cons col_s_def split: nat.splits)
  from StaticColumnArgsOnly_iff [OF a k] 1 2 3 a k show ?thesis
    unfolding h by simp
qed

subsection \<open>The walk\<close>

text \<open>
  Whatever the walk returns, it has kept the sizes of the vectors, the filter operations
  it found and the key slots that were filled.
\<close>

lemma extends_refl: "extends st st"
  by (simp add: extends_def)

lemma extends_trans: "extends st st1 \<Longrightarrow> extends st1 st2 \<Longrightarrow> extends st st2"
  by (auto simp add: extends_def)

lemma AnalyzeColumnOp_extends:
  "AnalyzeColumnOp st opr col_desc v = Inr (s, st') \<Longrightarrow> extends st st'"
  by (auto simp add: AnalyzeColumnOp_defs extends_def Let_def nth_list_update split: if_splits)

lemma PTExpr_Analyze_extends:
  "PTExpr_Analyze expr st = Inr (s, st') \<Longrightarrow> extends st st'"
proof (induction expr arbitrary: st s st')
  case (PTRelationExpr opr col_desc v)
  then show ?case by (simp add: AnalyzeColumnOp_extends)
next
  case (PTLogicExpr opr l r)
  show ?case
  proof (cases "opr = YQL_OP_AND")
    case False
    with PTLogicExpr.prems show ?thesis by (simp add: extends_refl)
  next
    case True
    with PTLogicExpr.prems obtain s1 st1 where l: "PTExpr_Analyze l st = Inr (s1, st1)"
      by (auto split: sum.splits)
    from PTLogicExpr.IH(1) [OF l] have e1: "extends st st1" .
    show ?thesis
    proof (cases "s1 = OK")
      case True
      with PTLogicExpr.prems l \<open>opr = YQL_OP_AND\<close> have "PTExpr_Analyze r st1 = Inr (s, st')"
        by simp
      from PTLogicExpr.IH(2) [OF this] e1 show ?thesis by (rule extends_trans [rotated])
    next
      case False
      with PTLogicExpr.prems l \<open>opr = YQL_OP_AND\<close> have "st' = st1" by simp
      with e1 show ?thesis by simp
    qed
  qed
next
  case PTOtherExpr
  then show ?case by (simp add: extends_refl)
qed

lemma walk_sizes:
  assumes "PTExpr_Analyze expr (where_state stmt) = Inr (s, st)"
  shows "length (op_counters st) = num_columns stmt"
    and "length (key_ops st) = length (key_where_ops stmt)"
  using PTExpr_Analyze_extends [OF assms] by (simp_all add: extends_def where_state_def)

lemma StaticColumnArgsOnly_written_back:
  "StaticColumnArgsOnly (written_back stmt st) = StaticColumnArgsOnly stmt"
  by (simp add: StaticColumnArgsOnly_def written_back_def
        cong: option.case_cong if_cong sum.case_cong)

text \<open>
  \<^verbatim>\<open>AnalyzeWhereClause\<close>: without a clause a write fails and a read succeeds; with a
  clause, \<^verbatim>\<open>AnalyzeWhereExpr\<close> runs on key slots sized to the key columns (write) or to
  the hash columns (read).
\<close>

lemma length_resize: "length (resize n xs) = n"
  by (simp add: resize_def)

lemma AnalyzeWhereClause_no_clause:
  "AnalyzeWhereClause stmt None =
     Inr (if write_only stmt then MissingPartitionKey else OK, stmt)"
  by (simp add: AnalyzeWhereClause_def)

lemma AnalyzeWhereClause_sizes:
  "\<exists>stmt1. AnalyzeWhereClause stmt (Some expr) = AnalyzeWhereExpr stmt1 expr
     \<and> write_only stmt1 = write_only stmt
     \<and> num_key_columns stmt1 = num_key_columns stmt
     \<and> num_hash_key_columns stmt1 = num_hash_key_columns stmt
     \<and> length (key_where_ops stmt1) =
         (if write_only stmt then num_key_columns stmt else num_hash_key_columns stmt)"
  by (rule exI [of _ "stmt\<lparr>key_where_ops :=
          resize (if write_only stmt then num_key_columns stmt else num_hash_key_columns stmt)
            (key_where_ops stmt)\<rparr>"])
    (simp add: AnalyzeWhereClause_def length_resize)

subsection \<open>The checks on a read\<close>

lemma push_front_loop_example:
  "push_front_loop [Some a, None, Some b] 3 [f] = Inr [a, b, f]"
  by (simp add: numeral_3_eq_3)

text \<open>
  Two walks of a read: \<open>c < 9 AND h3 = 3 AND h1 = 1\<close> on \<open>U\<close>, which leaves the hash slot
  of \<open>h2\<close> unfilled, and \<open>h = 5 AND c > 3\<close> on \<open>T\<close>, which fills every hash slot.
\<close>

lemmas table_U_defs = col_h1_def col_h2_def col_h3_def col_uc_def read_U_def
  where_state_def num_columns_def new_counter_def

lemma walk_U_partial:
  "PTExpr_Analyze
     (PTLogicExpr YQL_OP_AND
        (PTLogicExpr YQL_OP_AND
           (PTRelationExpr YQL_OP_LESS_THAN col_uc (PTConstInt 9))
           (PTRelationExpr YQL_OP_EQUAL col_h3 (PTConstInt 3)))
        (PTRelationExpr YQL_OP_EQUAL col_h1 (PTConstInt 1)))
     (where_state read_U)
   = Inr (OK,
       \<lparr>ops = [\<lparr>op_desc = col_uc, op_expr = PTConstInt 9, yql_op = YQL_OP_LESS_THAN\<rparr>],
        key_ops = [Some \<lparr>op_desc = col_h1, op_expr = PTConstInt 1, yql_op = YQL_OP_EQUAL\<rparr>,
                   None,
                   Some \<lparr>op_desc = col_h3, op_expr = PTConstInt 3, yql_op = YQL_OP_EQUAL\<rparr>],
        op_counters = [\<lparr>gt_count = 0, lt_count = 0, eq_count = 1\<rparr>, new_counter,
                       \<lparr>gt_count = 0, lt_count = 0, eq_count = 1\<rparr>,
                       \<lparr>gt_count = 0, lt_count = 1, eq_count = 0\<rparr>],
        state_write_only = False\<rparr>)"
  by (simp add: AnalyzeColumnOp_defs table_U_defs Let_def)

lemma walk_T_complete:
  "PTExpr_Analyze
     (PTLogicExpr YQL_OP_AND
        (PTRelationExpr YQL_OP_EQUAL col_h (PTConstInt 5))
        (PTRelationExpr YQL_OP_GREATER_THAN col_c (PTConstInt 3)))
     (where_state (stmt_T False []))
   = Inr (OK,
       \<lparr>ops = [\<lparr>op_desc = col_c, op_expr = PTConstInt 3, yql_op = YQL_OP_GREATER_THAN\<rparr>],
        key_ops = [Some \<lparr>op_desc = col_h, op_expr = PTConstInt 5, yql_op = YQL_OP_EQUAL\<rparr>],
        op_counters = [\<lparr>gt_count = 0, lt_count = 0, eq_count = 1\<rparr>,
                       \<lparr>gt_count = 1, lt_count = 0, eq_count = 0\<rparr>, new_counter, new_counter],
        state_write_only = False\<rparr>)"
  by (simp add: AnalyzeColumnOp_defs example_defs Let_def)

text \<open>
  C5. On a read whose walk succeeds, with \<^verbatim>\<open>key_where_ops_\<close> sized to the hash columns as
  \<^verbatim>\<open>AnalyzeWhereClause\<close> leaves it: if a hash slot is unfilled, the filled hash slots, in
  ascending order of their index, are put in front of the filter operations collected by
  the walk, and \<^verbatim>\<open>key_where_ops_\<close> is emptied; if every hash slot is filled, both
  collections are as the walk left them.
\<close>

theorem AnalyzeWhereExpr_read:
  assumes "\<not> write_only stmt"
    and "PTExpr_Analyze expr (where_state stmt) = Inr (OK, st)"
    and "length (key_where_ops stmt) = num_hash_key_columns stmt"
  shows "AnalyzeWhereExpr stmt expr =
           Inr (OK,
             if \<exists>i<num_hash_key_columns stmt. key_ops st ! i = None
             then stmt\<lparr>where_ops := map the (filter (\<lambda>x. x \<noteq> None) (key_ops st)) @ ops st,
                       key_where_ops := []\<rparr>
             else stmt\<lparr>where_ops := ops st, key_where_ops := key_ops st\<rparr>)"
proof -
  have len: "length (key_ops st) = num_hash_key_columns stmt"
    using walk_sizes(2) [OF assms(2)] assms(3) by simp
  have inc: "incomplete_hash_loop (key_ops st) 0 (num_hash_key_columns stmt)
               = Inr (\<exists>i<num_hash_key_columns stmt. key_ops st ! i = None)"
    using len by (simp add: incomplete_hash_loop_eq Bex_def)
  have push: "push_front_loop (key_ops st) (num_hash_key_columns stmt) (ops st)
               = Inr (map the (filter (\<lambda>x. x \<noteq> None) (key_ops st)) @ ops st)"
    using len by (simp add: push_front_loop_eq)
  show ?thesis
  proof (cases "\<exists>i<num_hash_key_columns stmt. key_ops st ! i = None")
    case True
    with assms(1,2) inc push show ?thesis
      by (simp add: AnalyzeWhereExpr_def read_checks_def written_back_def)
  next
    case False
    with assms(1,2) inc show ?thesis
      by (auto simp add: AnalyzeWhereExpr_def read_checks_def written_back_def)
  qed
qed


theorem AnalyzeWhereExpr_read_witness:
  "\<not> write_only read_U
   \<and> length (key_where_ops read_U) = num_hash_key_columns read_U
   \<and> AnalyzeWhereExpr read_U
        (PTLogicExpr YQL_OP_AND
           (PTLogicExpr YQL_OP_AND
              (PTRelationExpr YQL_OP_LESS_THAN col_uc (PTConstInt 9))
              (PTRelationExpr YQL_OP_EQUAL col_h3 (PTConstInt 3)))
           (PTRelationExpr YQL_OP_EQUAL col_h1 (PTConstInt 1)))
       = Inr (OK, read_U\<lparr>
           where_ops := [\<lparr>op_desc = col_h1, op_expr = PTConstInt 1, yql_op = YQL_OP_EQUAL\<rparr>,
                         \<lparr>op_desc = col_h3, op_expr = PTConstInt 3, yql_op = YQL_OP_EQUAL\<rparr>,
                         \<lparr>op_desc = col_uc, op_expr = PTConstInt 9, yql_op = YQL_OP_LESS_THAN\<rparr>],
           key_where_ops := []\<rparr>)
   \<and> \<not> write_only (stmt_T False [])
   \<and> length (key_where_ops (stmt_T False [])) = num_hash_key_columns (stmt_T False [])
   \<and> AnalyzeWhereExpr (stmt_T False [])
        (PTLogicExpr YQL_OP_AND
           (PTRelationExpr YQL_OP_EQUAL col_h (PTConstInt 5))
           (PTRelationExpr YQL_OP_GREATER_THAN col_c (PTConstInt 3)))
       = Inr (OK, (stmt_T False [])\<lparr>
           where_ops := [\<lparr>op_desc = col_c, op_expr = PTConstInt 3, yql_op = YQL_OP_GREATER_THAN\<rparr>],
           key_where_ops :=
             [Some \<lparr>op_desc = col_h, op_expr = PTConstInt 5, yql_op = YQL_OP_EQUAL\<rparr>]\<rparr>)"
proof -
  have r1: "\<not> write_only read_U" by (simp add: read_U_def)
  have l1: "length (key_where_ops read_U) = num_hash_key_columns read_U"
    by (simp add: read_U_def)
  have n1: "num_hash_key_columns read_U = 3" by (simp add: read_U_def)
  have u: "\<exists>i<3. [Some \<lparr>op_desc = col_h1, op_expr = PTConstInt 1, yql_op = YQL_OP_EQUAL\<rparr>,
                   None,
                   Some \<lparr>op_desc = col_h3, op_expr = PTConstInt 3, yql_op = YQL_OP_EQUAL\<rparr>] ! i
                = None"
    by (rule exI [of _ 1]) simp
  have a: "AnalyzeWhereExpr read_U
        (PTLogicExpr YQL_OP_AND
           (PTLogicExpr YQL_OP_AND
              (PTRelationExpr YQL_OP_LESS_THAN col_uc (PTConstInt 9))
              (PTRelationExpr YQL_OP_EQUAL col_h3 (PTConstInt 3)))
           (PTRelationExpr YQL_OP_EQUAL col_h1 (PTConstInt 1)))
       = Inr (OK, read_U\<lparr>
           where_ops := [\<lparr>op_desc = col_h1, op_expr = PTConstInt 1, yql_op = YQL_OP_EQUAL\<rparr>,
                         \<lparr>op_desc = col_h3, op_expr = PTConstInt 3, yql_op = YQL_OP_EQUAL\<rparr>,
                         \<lparr>op_desc = col_uc, op_expr = PTConstInt 9, yql_op = YQL_OP_LESS_THAN\<rparr>],
           key_where_ops := []\<rparr>)"
    using AnalyzeWhereExpr_read [OF r1 walk_U_partial l1] u unfolding n1 by simp
  have r2: "\<not> write_only (stmt_T False [])" by (simp add: stmt_T_def)
  have l2: "length (key_where_ops (stmt_T False [])) = num_hash_key_columns (stmt_T False [])"
    by (simp add: stmt_T_def)
  have n2: "num_hash_key_columns (stmt_T False []) = 1" by (simp add: stmt_T_def)
  have b: "AnalyzeWhereExpr (stmt_T False [])
        (PTLogicExpr YQL_OP_AND
           (PTRelationExpr YQL_OP_EQUAL col_h (PTConstInt 5))
           (PTRelationExpr YQL_OP_GREATER_THAN col_c (PTConstInt 3)))
       = Inr (OK, (stmt_T False [])\<lparr>
           where_ops := [\<lparr>op_desc = col_c, op_expr = PTConstInt 3, yql_op = YQL_OP_GREATER_THAN\<rparr>],
           key_where_ops :=
             [Some \<lparr>op_desc = col_h, op_expr = PTConstInt 5, yql_op = YQL_OP_EQUAL\<rparr>]\<rparr>)"
    using AnalyzeWhereExpr_read [OF r2 walk_T_complete l2] unfolding n2 by simp
  from r1 l1 a r2 l2 b show ?thesis by simp
qed

subsection \<open>The checks on a write\<close>

lemma write_checks_missing_hash:
  assumes "num_hash_key_columns stmt \<le> length cs"
    and "\<exists>i<num_hash_key_columns stmt. eq_count (cs ! i) = 0"
  shows "write_checks stmt cs = Inr (MissingKeyCondition, stmt)"
proof -
  from assms have "hash_entries_loop cs 0 (num_hash_key_columns stmt) = Inr False"
    by (auto simp add: hash_entries_loop_eq)
  then show ?thesis by (simp add: write_checks_def)
qed

lemma write_checks_range:
  assumes "num_hash_key_columns stmt \<le> length cs"
    and "num_key_columns stmt \<le> length cs"
    and "\<forall>i<num_hash_key_columns stmt. eq_count (cs ! i) \<noteq> 0"
    and "StaticColumnArgsOnly stmt = Inr static_only"
    and "range_keys = length (filter (\<lambda>i. eq_count (cs ! i) \<noteq> 0)
                                [num_hash_key_columns stmt..<num_key_columns stmt])"
  shows "write_checks stmt cs =
           Inr (if static_only then
                  (if int range_keys \<noteq> int (num_key_columns stmt) - int (num_hash_key_columns stmt)
                      \<and> range_keys \<noteq> 0
                   then (MissingKeyCondition, stmt)
                   else if range_keys = 0
                   then (OK, stmt\<lparr>key_where_ops :=
                                resize (num_hash_key_columns stmt) (key_where_ops stmt)\<rparr>)
                   else (OK, stmt))
                else
                  (if int range_keys \<noteq> int (num_key_columns stmt) - int (num_hash_key_columns stmt)
                   then (MissingKeyCondition, stmt)
                   else (OK, stmt)))"
proof -
  from assms(1,3) have h: "hash_entries_loop cs 0 (num_hash_key_columns stmt) = Inr True"
    by (auto simp add: hash_entries_loop_eq)
  from assms(2,5) have r: "range_keys_loop cs (num_hash_key_columns stmt) (num_key_columns stmt) 0
      = Inr range_keys"
    by (simp add: range_keys_loop_eq)
  show ?thesis
    by (cases static_only) (simp_all add: write_checks_def h r assms(4))
qed

text \<open>The walks of \<open>h = 5\<close> and of \<open>c = 3\<close> on a write to \<open>T\<close>, and a static-only write.\<close>

lemma walk_h_eq_5:
  "PTExpr_Analyze (PTRelationExpr YQL_OP_EQUAL col_h (PTConstInt 5)) (where_state (stmt_T True args))
     = Inr (OK, (state_T True)\<lparr>
         key_ops := [Some \<lparr>op_desc = col_h, op_expr = PTConstInt 5, yql_op = YQL_OP_EQUAL\<rparr>, None],
         op_counters := [\<lparr>gt_count = 0, lt_count = 0, eq_count = 1\<rparr>,
                         new_counter, new_counter, new_counter]\<rparr>)"
  by (simp add: AnalyzeColumnOp_defs example_defs Let_def)

lemma static_only_example:
  "StaticColumnArgsOnly
     (stmt_T True [None, None, Some \<lparr>arg_desc = col_s, arg_expr = PTConstInt 1\<rparr>, None]) = Inr True"
  by (simp add: StaticColumnArgsOnly_def stmt_T_def write_range_columns_loop.simps
        static_columns_loop.simps IsInitialized_def col_s_def)

lemma walk_c_eq_3:
  "PTExpr_Analyze (PTRelationExpr YQL_OP_EQUAL col_c (PTConstInt 3)) (where_state (stmt_T True args))
     = Inr (OK, (state_T True)\<lparr>
         key_ops := [None, Some \<lparr>op_desc = col_c, op_expr = PTConstInt 3, yql_op = YQL_OP_EQUAL\<rparr>],
         op_counters := [new_counter, \<lparr>gt_count = 0, lt_count = 0, eq_count = 1\<rparr>,
                         new_counter, new_counter]\<rparr>)"
  by (simp add: AnalyzeColumnOp_defs example_defs Let_def)

text \<open>
  C1. On a write whose walk succeeds, with a counter for every hash column: if a hash
  column has no EQ recorded at the end of the walk, \<^verbatim>\<open>AnalyzeWhereExpr\<close> fails with
  \<^verbatim>\<open>MissingKeyCondition\<close>; if every hash column has one and the condition on the range key
  columns holds (all of them have an EQ, or the write is static-only and none has), it
  succeeds.
\<close>

theorem AnalyzeWhereExpr_write_hash_keys:
  assumes "write_only stmt"
    and "PTExpr_Analyze expr (where_state stmt) = Inr (OK, st)"
    and "num_hash_key_columns stmt \<le> num_columns stmt"
  shows "((\<exists>i<num_hash_key_columns stmt. eq_count (op_counters st ! i) = 0) \<longrightarrow>
            AnalyzeWhereExpr stmt expr =
              Inr (MissingKeyCondition, stmt\<lparr>where_ops := ops st, key_where_ops := key_ops st\<rparr>))
       \<and> ((\<forall>i<num_hash_key_columns stmt. eq_count (op_counters st ! i) \<noteq> 0)
          \<and> num_key_columns stmt \<le> num_columns stmt
          \<and> (\<exists>static_only. StaticColumnArgsOnly stmt = Inr static_only
               \<and> (int (length (filter (\<lambda>i. eq_count (op_counters st ! i) \<noteq> 0)
                                 [num_hash_key_columns stmt..<num_key_columns stmt]))
                    = int (num_key_columns stmt) - int (num_hash_key_columns stmt)
                  \<or> static_only
                    \<and> length (filter (\<lambda>i. eq_count (op_counters st ! i) \<noteq> 0)
                                 [num_hash_key_columns stmt..<num_key_columns stmt]) = 0))
          \<longrightarrow> (\<exists>stmt'. AnalyzeWhereExpr stmt expr = Inr (OK, stmt')))"
proof -
  let ?wb = "written_back stmt st"
  have cs: "length (op_counters st) = num_columns stmt"
    using walk_sizes(1) [OF assms(2)] .
  have f: "num_hash_key_columns ?wb = num_hash_key_columns stmt"
    "num_key_columns ?wb = num_key_columns stmt"
    by (simp_all add: written_back_def)
  have a: "AnalyzeWhereExpr stmt expr = write_checks ?wb (op_counters st)"
    using assms(1,2) by (simp add: AnalyzeWhereExpr_def)
  have "AnalyzeWhereExpr stmt expr = Inr (MissingKeyCondition, ?wb)"
    if "\<exists>i<num_hash_key_columns stmt. eq_count (op_counters st ! i) = 0"
    using write_checks_missing_hash [of ?wb "op_counters st"] that assms(3) cs a f by simp
  moreover have "\<exists>stmt'. AnalyzeWhereExpr stmt expr = Inr (OK, stmt')"
    if h: "\<forall>i<num_hash_key_columns stmt. eq_count (op_counters st ! i) \<noteq> 0"
      and k: "num_key_columns stmt \<le> num_columns stmt"
      and so: "StaticColumnArgsOnly stmt = Inr static_only"
      and r: "int (length (filter (\<lambda>i. eq_count (op_counters st ! i) \<noteq> 0)
                                 [num_hash_key_columns stmt..<num_key_columns stmt]))
                    = int (num_key_columns stmt) - int (num_hash_key_columns stmt)
                  \<or> static_only
                    \<and> length (filter (\<lambda>i. eq_count (op_counters st ! i) \<noteq> 0)
                                 [num_hash_key_columns stmt..<num_key_columns stmt]) = 0"
    for static_only
  proof -
    have "StaticColumnArgsOnly ?wb = Inr static_only"
      using so by (simp add: StaticColumnArgsOnly_written_back)
    from write_checks_range [of ?wb "op_counters st" static_only, OF _ _ _ this refl]
    have "write_checks ?wb (op_counters st) =
           Inr (if static_only then
                  (if int (length (filter (\<lambda>i. eq_count (op_counters st ! i) \<noteq> 0)
                                 [num_hash_key_columns stmt..<num_key_columns stmt]))
                       \<noteq> int (num_key_columns stmt) - int (num_hash_key_columns stmt)
                      \<and> length (filter (\<lambda>i. eq_count (op_counters st ! i) \<noteq> 0)
                                 [num_hash_key_columns stmt..<num_key_columns stmt]) \<noteq> 0
                   then (MissingKeyCondition, ?wb)
                   else if length (filter (\<lambda>i. eq_count (op_counters st ! i) \<noteq> 0)
                                 [num_hash_key_columns stmt..<num_key_columns stmt]) = 0
                   then (OK, ?wb\<lparr>key_where_ops :=
                                resize (num_hash_key_columns stmt) (key_where_ops ?wb)\<rparr>)
                   else (OK, ?wb))
                else
                  (if int (length (filter (\<lambda>i. eq_count (op_counters st ! i) \<noteq> 0)
                                 [num_hash_key_columns stmt..<num_key_columns stmt]))
                       \<noteq> int (num_key_columns stmt) - int (num_hash_key_columns stmt)
                   then (MissingKeyCondition, ?wb)
                   else (OK, ?wb)))"
      using h k assms(3) cs unfolding f by simp
    with r a show ?thesis by (cases static_only) auto
  qed
  ultimately show ?thesis by (auto simp add: written_back_def)
qed

theorem AnalyzeWhereExpr_write_hash_keys_witness:
  "write_only (stmt_T True [None, None, None, Some \<lparr>arg_desc = col_r, arg_expr = PTConstInt 1\<rparr>])
   \<and> AnalyzeWhereExpr
        (stmt_T True [None, None, None, Some \<lparr>arg_desc = col_r, arg_expr = PTConstInt 1\<rparr>])
        (PTRelationExpr YQL_OP_EQUAL col_c (PTConstInt 3))
       = Inr (MissingKeyCondition,
           (stmt_T True [None, None, None, Some \<lparr>arg_desc = col_r, arg_expr = PTConstInt 1\<rparr>])
           \<lparr>key_where_ops :=
              [None, Some \<lparr>op_desc = col_c, op_expr = PTConstInt 3, yql_op = YQL_OP_EQUAL\<rparr>]\<rparr>)
   \<and> (\<exists>stmt'. AnalyzeWhereExpr
         (stmt_T True [None, None, Some \<lparr>arg_desc = col_s, arg_expr = PTConstInt 1\<rparr>, None])
         (PTRelationExpr YQL_OP_EQUAL col_h (PTConstInt 5)) = Inr (OK, stmt'))"
proof -
  let ?s1 = "stmt_T True [None, None, None, Some \<lparr>arg_desc = col_r, arg_expr = PTConstInt 1\<rparr>]"
  let ?s2 = "stmt_T True [None, None, Some \<lparr>arg_desc = col_s, arg_expr = PTConstInt 1\<rparr>, None]"
  have w1: "write_only ?s1" and w2: "write_only ?s2" by (simp_all add: stmt_T_def)
  have n1: "num_hash_key_columns ?s1 \<le> num_columns ?s1"
    and n2: "num_hash_key_columns ?s2 \<le> num_columns ?s2"
    by (simp_all add: stmt_T_def num_columns_def)
  from AnalyzeWhereExpr_write_hash_keys [OF w1 walk_c_eq_3 n1]
  have a: "AnalyzeWhereExpr ?s1 (PTRelationExpr YQL_OP_EQUAL col_c (PTConstInt 3))
       = Inr (MissingKeyCondition,
           ?s1\<lparr>key_where_ops :=
              [None, Some \<lparr>op_desc = col_c, op_expr = PTConstInt 3, yql_op = YQL_OP_EQUAL\<rparr>]\<rparr>)"
    by (simp add: example_defs)
  from AnalyzeWhereExpr_write_hash_keys [OF w2 walk_h_eq_5 n2] static_only_example
  have b: "\<exists>stmt'. AnalyzeWhereExpr ?s2 (PTRelationExpr YQL_OP_EQUAL col_h (PTConstInt 5))
       = Inr (OK, stmt')"
    by (auto simp add: example_defs upt_conv_Cons)
  from w1 a b show ?thesis by simp
qed

text \<open>
  C6. On a write whose walk succeeds and whose hash columns all have an EQ, with
  \<^verbatim>\<open>key_where_ops_\<close> sized to the key columns as \<^verbatim>\<open>AnalyzeWhereClause\<close> leaves it, and
  \<open>range_keys\<close> the number of range key columns with an EQ recorded: a static-only write
  fails with \<^verbatim>\<open>MissingKeyCondition\<close> unless \<open>range_keys\<close> is
  \<open>num_key_columns - num_hash_key_columns\<close> or \<open>0\<close>, and when it is \<open>0\<close> the key slots are
  cut to the \<open>num_hash_key_columns\<close> hash slots; a write that is not static-only fails
  with \<^verbatim>\<open>MissingKeyCondition\<close> unless \<open>range_keys\<close> is
  \<open>num_key_columns - num_hash_key_columns\<close>.
\<close>

theorem AnalyzeWhereExpr_write_range_keys:
  assumes "write_only stmt"
    and "PTExpr_Analyze expr (where_state stmt) = Inr (OK, st)"
    and "num_hash_key_columns stmt \<le> num_key_columns stmt"
    and "num_key_columns stmt \<le> num_columns stmt"
    and "length (key_where_ops stmt) = num_key_columns stmt"
    and "\<forall>i<num_hash_key_columns stmt. eq_count (op_counters st ! i) \<noteq> 0"
    and "StaticColumnArgsOnly stmt = Inr static_only"
    and "range_keys = length (filter (\<lambda>i. eq_count (op_counters st ! i) \<noteq> 0)
                                [num_hash_key_columns stmt..<num_key_columns stmt])"
  shows "AnalyzeWhereExpr stmt expr =
           Inr (if static_only then
                  (if range_keys \<noteq> num_key_columns stmt - num_hash_key_columns stmt
                      \<and> range_keys \<noteq> 0
                   then (MissingKeyCondition,
                         stmt\<lparr>where_ops := ops st, key_where_ops := key_ops st\<rparr>)
                   else if range_keys = 0
                   then (OK, stmt\<lparr>where_ops := ops st,
                                   key_where_ops := take (num_hash_key_columns stmt) (key_ops st)\<rparr>)
                   else (OK, stmt\<lparr>where_ops := ops st, key_where_ops := key_ops st\<rparr>))
                else
                  (if range_keys \<noteq> num_key_columns stmt - num_hash_key_columns stmt
                   then (MissingKeyCondition,
                         stmt\<lparr>where_ops := ops st, key_where_ops := key_ops st\<rparr>)
                   else (OK, stmt\<lparr>where_ops := ops st, key_where_ops := key_ops st\<rparr>)))
       \<and> length (take (num_hash_key_columns stmt) (key_ops st)) = num_hash_key_columns stmt"
proof -
  let ?wb = "written_back stmt st"
  have cs: "length (op_counters st) = num_columns stmt"
    and ks: "length (key_ops st) = num_key_columns stmt"
    using walk_sizes [OF assms(2)] assms(5) by simp_all
  have f: "num_hash_key_columns ?wb = num_hash_key_columns stmt"
    "num_key_columns ?wb = num_key_columns stmt" "key_where_ops ?wb = key_ops st"
    by (simp_all add: written_back_def)
  have so: "StaticColumnArgsOnly ?wb = Inr static_only"
    using assms(7) by (simp add: StaticColumnArgsOnly_written_back)
  have i: "(int range_keys \<noteq> int (num_key_columns stmt) - int (num_hash_key_columns stmt))
           = (range_keys \<noteq> num_key_columns stmt - num_hash_key_columns stmt)"
    using assms(3) by auto
  have t: "resize (num_hash_key_columns stmt) (key_ops st)
           = take (num_hash_key_columns stmt) (key_ops st)"
    using ks assms(3) by (simp add: resize_def)
  have "AnalyzeWhereExpr stmt expr = write_checks ?wb (op_counters st)"
    using assms(1,2) by (simp add: AnalyzeWhereExpr_def)
  also note write_checks_range [of ?wb "op_counters st" static_only range_keys, unfolded f i t]
  finally show ?thesis
    using assms(3,4,6,8) cs ks so by (simp add: written_back_def)
qed

theorem AnalyzeWhereExpr_write_range_keys_witness:
  "write_only (stmt_T True [None, None, Some \<lparr>arg_desc = col_s, arg_expr = PTConstInt 1\<rparr>, None])
   \<and> StaticColumnArgsOnly
        (stmt_T True [None, None, Some \<lparr>arg_desc = col_s, arg_expr = PTConstInt 1\<rparr>, None])
       = Inr True
   \<and> AnalyzeWhereExpr
        (stmt_T True [None, None, Some \<lparr>arg_desc = col_s, arg_expr = PTConstInt 1\<rparr>, None])
        (PTRelationExpr YQL_OP_EQUAL col_h (PTConstInt 5))
       = Inr (OK,
           (stmt_T True [None, None, Some \<lparr>arg_desc = col_s, arg_expr = PTConstInt 1\<rparr>, None])
           \<lparr>key_where_ops :=
              [Some \<lparr>op_desc = col_h, op_expr = PTConstInt 5, yql_op = YQL_OP_EQUAL\<rparr>]\<rparr>)"
proof -
  let ?stmt = "stmt_T True [None, None, Some \<lparr>arg_desc = col_s, arg_expr = PTConstInt 1\<rparr>, None]"
  let ?st = "(state_T True)\<lparr>
         key_ops := [Some \<lparr>op_desc = col_h, op_expr = PTConstInt 5, yql_op = YQL_OP_EQUAL\<rparr>, None],
         op_counters := [\<lparr>gt_count = 0, lt_count = 0, eq_count = 1\<rparr>,
                         new_counter, new_counter, new_counter]\<rparr>"
  have 1: "write_only ?stmt" by (simp add: stmt_T_def)
  have 3: "num_hash_key_columns ?stmt \<le> num_key_columns ?stmt" by (simp add: stmt_T_def)
  have 4: "num_key_columns ?stmt \<le> num_columns ?stmt" by (simp add: stmt_T_def num_columns_def)
  have 5: "length (key_where_ops ?stmt) = num_key_columns ?stmt" by (simp add: stmt_T_def)
  have 6: "\<forall>i<num_hash_key_columns ?stmt. eq_count (op_counters ?st ! i) \<noteq> 0"
    by (simp add: stmt_T_def)
  have 8: "0 = length (filter (\<lambda>i. eq_count (op_counters ?st ! i) \<noteq> 0)
                    [num_hash_key_columns ?stmt..<num_key_columns ?stmt])"
    by (simp add: stmt_T_def new_counter_def upt_conv_Cons)
  from AnalyzeWhereExpr_write_range_keys [OF 1 walk_h_eq_5 3 4 5 6 static_only_example 8]
  show ?thesis using 1 static_only_example
    by (simp add: example_defs)
qed

subsection \<open>A failed analysis\<close>







subsection \<open>LookupTable\<close>

text \<open>\<^verbatim>\<open>LookupTable\<close> on a fresh statement builds the columns of \<open>T\<close> used above.\<close>

lemma LookupTable_example:
  "LookupTable (new_stmt True \<lparr>namespace_name = None, tbl_name = ''T''\<rparr>)
     (context_with [(\<lparr>namespace_name = Some ''ks'', tbl_name = ''T''\<rparr>, schema_T)])
   = (OK,
      (new_stmt True \<lparr>namespace_name = None, tbl_name = ''T''\<rparr>)
        \<lparr>table := Some schema_T,
         table_columns := [Some col_h, Some col_c, Some col_s, Some col_r],
         num_key_columns := 2, num_hash_key_columns := 1\<rparr>,
      (context_with [(\<lparr>namespace_name = Some ''ks'', tbl_name = ''T''\<rparr>, schema_T)])
        \<lparr>symbol_table := [(''r'', col_r), (''s'', col_s), (''c'', col_c), (''h'', col_h)]\<rparr>)"
  by (simp add: LookupTable_def new_stmt_def context_with_def name_is_system_def
        GetTableDesc_def schema_T_def resize_def columns_loop.simps MapSymbol_def Let_def
        col_h_def col_c_def col_s_def col_r_def)

text \<open>The loop over the columns fails only where \<^verbatim>\<open>MapSymbol\<close> does.\<close>

lemma columns_loop_status:
  "fst (columns_loop schema idx stmt sem_context) = OK
   \<or> fst (columns_loop schema idx stmt sem_context) = ErrorCodeOnly DUPLICATE_COLUMN"
proof (induction schema idx stmt sem_context rule: columns_loop.induct)
  case (1 schema idx stmt sem_context)
  show ?case
  proof (cases "idx < length (columns schema)")
    case False
    then show ?thesis by (subst (1 2) columns_loop.simps) simp
  next
    case True
    let ?col = "columns schema ! idx"
    let ?desc = "\<lparr>index = idx, column_id = col_id ?col,
                        is_hash = idx < num_hash_key_columns stmt,
                        is_primary = idx < num_key_columns stmt,
                        is_static = col_is_static ?col\<rparr>"
    let ?stmt1 = "stmt\<lparr>table_columns := (table_columns stmt)[idx := Some ?desc]\<rparr>"
    show ?thesis
    proof (cases "map_of (symbol_table sem_context) (col_name ?col) \<noteq> None")
      case dup: True
      with True show ?thesis
        by (subst (1 2) columns_loop.simps) (simp add: MapSymbol_def Let_def)
    next
      case False
      let ?ctx1 = "sem_context\<lparr>symbol_table := (col_name ?col, ?desc) # symbol_table sem_context\<rparr>"
      from False have m: "MapSymbol sem_context (col_name ?col) ?desc = (OK, ?ctx1)"
        by (simp add: MapSymbol_def)
      from True m have "columns_loop schema idx stmt sem_context
          = columns_loop schema (idx + 1) ?stmt1 ?ctx1"
        by (subst columns_loop.simps) (simp add: Let_def)
      with "1.IH" [OF True refl refl refl m [symmetric] refl] show ?thesis by simp
    qed
  qed
qed

text \<open>
  C10. With \<open>name\<close> the table name qualified by the current keyspace where it has no
  keyspace of its own: a write to a system name, with the system keyspace write-protected,
  fails with \<^verbatim>\<open>SystemNamespaceReadOnly\<close> whatever the catalog holds, before any lookup; and
  when \<^verbatim>\<open>LookupTable\<close> fails with \<^verbatim>\<open>TableNotFound\<close>, the statement has passed that gate and
  the catalog has no table of that name.
\<close>

theorem LookupTable_readonly_before_lookup:
  assumes "name = (if namespace_name (table_name stmt) = None
                   then (table_name stmt)\<lparr>namespace_name := Some (CurrentKeyspace sem_context)\<rparr>
                   else table_name stmt)"
  shows "(write_only stmt \<and> name_is_system sem_context name
            \<and> yb_system_namespace_readonly sem_context \<longrightarrow>
          LookupTable stmt sem_context
            = (ErrorCodeOnly SYSTEM_NAMESPACE_READONLY, stmt\<lparr>is_system := True\<rparr>, sem_context))
       \<and> (fst (LookupTable stmt sem_context) = ErrorCodeOnly TABLE_NOT_FOUND \<longrightarrow>
            \<not> (write_only stmt \<and> name_is_system sem_context name
                 \<and> yb_system_namespace_readonly sem_context)
          \<and> GetTableDesc sem_context name = None)"
proof -
  have 1: "LookupTable stmt sem_context
            = (ErrorCodeOnly SYSTEM_NAMESPACE_READONLY, stmt\<lparr>is_system := True\<rparr>, sem_context)"
    if "write_only stmt" "name_is_system sem_context name" "yb_system_namespace_readonly sem_context"
    using that by (simp add: LookupTable_def Let_def assms [symmetric])
  have 2: "\<not> (write_only stmt \<and> name_is_system sem_context name
                 \<and> yb_system_namespace_readonly sem_context)
          \<and> GetTableDesc sem_context name = None"
    if t: "fst (LookupTable stmt sem_context) = ErrorCodeOnly TABLE_NOT_FOUND"
  proof (intro conjI)
    show "\<not> (write_only stmt \<and> name_is_system sem_context name
                 \<and> yb_system_namespace_readonly sem_context)"
      using 1 t by auto
    then have gate: "\<not> (name_is_system sem_context name \<and> write_only stmt
                 \<and> yb_system_namespace_readonly sem_context)" by blast
    show "GetTableDesc sem_context name = None"
    proof (rule ccontr)
      assume "GetTableDesc sem_context name \<noteq> None"
      then obtain schema where g: "GetTableDesc sem_context name = Some schema" by auto
      let ?stmt3 = "stmt\<lparr>is_system := name_is_system sem_context name,
                         table := Some schema,
                         num_key_columns := schema_num_key_columns schema,
                         num_hash_key_columns := schema_num_hash_key_columns schema,
                         table_columns := resize (length (columns schema)) (table_columns stmt)\<rparr>"
      from gate g have "LookupTable stmt sem_context = columns_loop schema 0 ?stmt3 sem_context"
        by (auto simp add: LookupTable_def Let_def assms [symmetric])
      with columns_loop_status [of schema 0 ?stmt3 sem_context] t show False by simp
    qed
  qed
  from 1 2 show ?thesis by blast
qed

theorem LookupTable_readonly_before_lookup_witness:
  "write_only (new_stmt True \<lparr>namespace_name = Some ''system'', tbl_name = ''peers''\<rparr>)
   \<and> GetTableDesc (context_with []) \<lparr>namespace_name = Some ''system'', tbl_name = ''peers''\<rparr> = None
   \<and> LookupTable (new_stmt True \<lparr>namespace_name = Some ''system'', tbl_name = ''peers''\<rparr>)
         (context_with [])
       = (ErrorCodeOnly SYSTEM_NAMESPACE_READONLY,
          (new_stmt True \<lparr>namespace_name = Some ''system'', tbl_name = ''peers''\<rparr>)
            \<lparr>is_system := True\<rparr>,
          context_with [])
   \<and> fst (LookupTable (new_stmt True \<lparr>namespace_name = None, tbl_name = ''T''\<rparr>) (context_with []))
       = ErrorCodeOnly TABLE_NOT_FOUND
   \<and> \<not> name_is_system (context_with []) \<lparr>namespace_name = Some ''ks'', tbl_name = ''T''\<rparr>"
proof -
  let ?n1 = "\<lparr>namespace_name = Some ''system'', tbl_name = ''peers''\<rparr>"
  let ?n2 = "\<lparr>namespace_name = Some ''ks'', tbl_name = ''T''\<rparr>"
  have r1: "?n1 = (if namespace_name (table_name (new_stmt True ?n1)) = None
                   then (table_name (new_stmt True ?n1))
                          \<lparr>namespace_name := Some (CurrentKeyspace (context_with []))\<rparr>
                   else table_name (new_stmt True ?n1))"
    by (simp add: new_stmt_def)
  have w: "write_only (new_stmt True ?n1)" by (simp add: new_stmt_def)
  have s: "name_is_system (context_with []) ?n1" "yb_system_namespace_readonly (context_with [])"
    by (simp_all add: name_is_system_def context_with_def)
  have g: "GetTableDesc (context_with []) ?n1 = None"
    by (simp add: GetTableDesc_def context_with_def)
  have t: "fst (LookupTable (new_stmt True \<lparr>namespace_name = None, tbl_name = ''T''\<rparr>)
                  (context_with [])) = ErrorCodeOnly TABLE_NOT_FOUND"
    by (simp add: LookupTable_def new_stmt_def context_with_def name_is_system_def
          GetTableDesc_def Let_def)
  have n: "\<not> name_is_system (context_with []) ?n2"
    by (simp add: name_is_system_def context_with_def)
  from LookupTable_readonly_before_lookup [OF r1] w s g t n show ?thesis by simp
qed

end
